theory Spec2Isabelle
  imports Complex_Main "HOL-Library.Monad_Syntax" "HOL-Library.Char_ord"
    "HOL-Library.List_Lexorder" "HOL-Library.Product_Lexorder" "HOL-Library.Multiset"
    "HOL-Library.Log_Nat"
begin

section \<open>JavaScript numbers and Date objects\<close>

text \<open>
  The repository is JavaScript over the built-in \<^verbatim>\<open>Date\<close>, \<^verbatim>\<open>moment-timezone\<close> and
  \<^verbatim>\<open>lodash\<close>.  A Date object holds one time value: an integral number of milliseconds
  since the epoch with absolute value at most 8.64e15, or NaN (an Invalid Date).  The
  numbers that the code passes around (time values, calendar fields, shift amounts) are
  integers or NaN, so a number is modelled as \<open>int option\<close> with \<open>None\<close> for NaN.  All
  integers that occur on the way to an in-range time value are below 2^53 in absolute
  value, where double arithmetic on integers is exact; a sum or product beyond 2^53 is
  rounded by JavaScript, but it stays beyond 8.64e15 and \<open>TimeClip\<close> turns it into NaN
  just as it does for the exact integer.
\<close>

type_synonym num = "int option"

type_synonym Date = "int option"

definition msPerDay :: int where
  "msPerDay = 86400000"

definition msPerHour :: int where
  "msPerHour = 3600000"

definition msPerMinute :: int where
  "msPerMinute = 60000"

definition msPerSecond :: int where
  "msPerSecond = 1000"

definition maxTime :: int where
  "maxTime = 8640000000000000"

text \<open>ECMAScript \<^verbatim>\<open>TimeClip\<close>: a time value out of range becomes NaN.\<close>

definition TimeClip :: "int \<Rightarrow> Date" where
  "TimeClip v = (if \<bar>v\<bar> > maxTime then None else Some v)"

text \<open>\<^verbatim>\<open>new Date(value)\<close> for a number, and \<^verbatim>\<open>d.valueOf()\<close>.\<close>

definition new_Date :: "num \<Rightarrow> Date" where
  "new_Date v = (case v of None \<Rightarrow> None | Some n \<Rightarrow> TimeClip n)"

definition valueOf :: "Date \<Rightarrow> num" where
  "valueOf d = d"

text \<open>JavaScript \<^verbatim>\<open>+\<close> and \<^verbatim>\<open>*\<close> on numbers: NaN is absorbing.\<close>

definition num_add :: "num \<Rightarrow> num \<Rightarrow> num" where
  "num_add a b = do { x \<leftarrow> a; y \<leftarrow> b; Some (x + y) }"

definition num_mul :: "num \<Rightarrow> num \<Rightarrow> num" where
  "num_mul a b = do { x \<leftarrow> a; y \<leftarrow> b; Some (x * y) }"

section \<open>ECMAScript calendar arithmetic\<close>

text \<open>
  The abstract operations of the ECMAScript specification (Day, DayFromYear,
  YearFromTime, MonthFromTime, DateFromTime, HourFromTime, MakeTime, MakeDay, MakeDate)
  on finite arguments.  All divisions are floor divisions, as in the specification.
\<close>

definition Day :: "int \<Rightarrow> int" where
  "Day t = t div msPerDay"

definition TimeWithinDay :: "int \<Rightarrow> int" where
  "TimeWithinDay t = t mod msPerDay"

definition DaysInYear :: "int \<Rightarrow> int" where
  "DaysInYear y =
     (if y mod 4 \<noteq> 0 then 365 else if y mod 100 \<noteq> 0 then 366
      else if y mod 400 \<noteq> 0 then 365 else 366)"

definition DayFromYear :: "int \<Rightarrow> int" where
  "DayFromYear y =
     365 * (y - 1970) + (y - 1969) div 4 - (y - 1901) div 100 + (y - 1601) div 400"

text \<open>
  The specification defines \<^verbatim>\<open>YearFromTime(t)\<close> as the largest integer \<open>y\<close> with
  \<^verbatim>\<open>TimeFromYear(y) <= t\<close>.  It is computed here from an estimate that is off by at
  most one year; \<open>YearFromDay_lower\<close> and \<open>YearFromDay_upper\<close> below show that the
  result is the year the specification asks for.
\<close>

definition YearFromDay :: "int \<Rightarrow> int" where
  "YearFromDay d =
     (let y = 1970 + (400 * d) div 146097
      in if d < DayFromYear y then y - 1
         else if DayFromYear (y + 1) \<le> d then y + 1 else y)"

definition YearFromTime :: "int \<Rightarrow> int" where
  "YearFromTime t = YearFromDay (Day t)"

definition DayWithinYear :: "int \<Rightarrow> int" where
  "DayWithinYear t = Day t - DayFromYear (YearFromTime t)"

definition InLeapYear :: "int \<Rightarrow> int" where
  "InLeapYear t = (if DaysInYear (YearFromTime t) = 366 then 1 else 0)"

definition MonthFromTime :: "int \<Rightarrow> int" where
  "MonthFromTime t =
     (let d = DayWithinYear t; l = InLeapYear t
      in if d < 31 then 0
         else if d < 59 + l then 1
         else if d < 90 + l then 2
         else if d < 120 + l then 3
         else if d < 151 + l then 4
         else if d < 181 + l then 5
         else if d < 212 + l then 6
         else if d < 243 + l then 7
         else if d < 273 + l then 8
         else if d < 304 + l then 9
         else if d < 334 + l then 10
         else 11)"

text \<open>The number of days of the year before month \<open>m\<close> (0 to 11).\<close>

definition DaysBeforeMonth :: "int \<Rightarrow> int \<Rightarrow> int" where
  "DaysBeforeMonth m l =
     (if m = 0 then 0
      else if m = 1 then 31
      else if m = 2 then 59 + l
      else if m = 3 then 90 + l
      else if m = 4 then 120 + l
      else if m = 5 then 151 + l
      else if m = 6 then 181 + l
      else if m = 7 then 212 + l
      else if m = 8 then 243 + l
      else if m = 9 then 273 + l
      else if m = 10 then 304 + l
      else 334 + l)"

definition DateFromTime :: "int \<Rightarrow> int" where
  "DateFromTime t = DayWithinYear t - DaysBeforeMonth (MonthFromTime t) (InLeapYear t) + 1"

definition HourFromTime :: "int \<Rightarrow> int" where
  "HourFromTime t = (t div msPerHour) mod 24"

definition MinFromTime :: "int \<Rightarrow> int" where
  "MinFromTime t = (t div msPerMinute) mod 60"

definition SecFromTime :: "int \<Rightarrow> int" where
  "SecFromTime t = (t div msPerSecond) mod 60"

definition msFromTime :: "int \<Rightarrow> int" where
  "msFromTime t = t mod msPerSecond"

definition MakeTime :: "int \<Rightarrow> int \<Rightarrow> int \<Rightarrow> int \<Rightarrow> int" where
  "MakeTime h m s milli = h * msPerHour + m * msPerMinute + s * msPerSecond + milli"

text \<open>
  \<^verbatim>\<open>MakeDay(year, month, date)\<close>: the day number of the first of the month
  \<open>month mod 12\<close> of the year \<open>year + floor(month / 12)\<close>, plus \<open>date - 1\<close>.
\<close>

definition MakeDay :: "int \<Rightarrow> int \<Rightarrow> int \<Rightarrow> int" where
  "MakeDay year month date =
     (let ym = year + month div 12; mn = month mod 12
      in DayFromYear ym + DaysBeforeMonth mn (if DaysInYear ym = 366 then 1 else 0) + date - 1)"

definition MakeDate :: "int \<Rightarrow> int \<Rightarrow> int" where
  "MakeDate day time = day * msPerDay + time"

section \<open>The environment's default time zone\<close>

text \<open>
  The local time zone adjustment \<^verbatim>\<open>LocalTZA(t, isUTC)\<close> of the ECMAScript
  specification is defined by the host; it is a parameter \<open>tza\<close> of everything that
  reads or builds a Date from local calendar fields.  \<open>tza t True\<close> is the offset (in
  milliseconds, positive east of Greenwich) in force at the time value \<open>t\<close>;
  \<open>tza t False\<close> is the offset with which the host reads the local time \<open>t\<close>.
\<close>

type_synonym LocalTZA = "int \<Rightarrow> bool \<Rightarrow> int"

definition LocalTime :: "LocalTZA \<Rightarrow> int \<Rightarrow> int" where
  "LocalTime tza t = t + tza t True"

definition UTC :: "LocalTZA \<Rightarrow> int \<Rightarrow> int" where
  "UTC tza t = t - tza t False"

text \<open>The getters of a Date: NaN for an Invalid Date.\<close>

definition getFullYear :: "LocalTZA \<Rightarrow> Date \<Rightarrow> num" where
  "getFullYear tza d = map_option (\<lambda>t. YearFromTime (LocalTime tza t)) d"

definition getMonth :: "LocalTZA \<Rightarrow> Date \<Rightarrow> num" where
  "getMonth tza d = map_option (\<lambda>t. MonthFromTime (LocalTime tza t)) d"

definition getDate :: "LocalTZA \<Rightarrow> Date \<Rightarrow> num" where
  "getDate tza d = map_option (\<lambda>t. DateFromTime (LocalTime tza t)) d"

definition getHours :: "LocalTZA \<Rightarrow> Date \<Rightarrow> num" where
  "getHours tza d = map_option (\<lambda>t. HourFromTime (LocalTime tza t)) d"

definition getMinutes :: "LocalTZA \<Rightarrow> Date \<Rightarrow> num" where
  "getMinutes tza d = map_option (\<lambda>t. MinFromTime (LocalTime tza t)) d"

definition getSeconds :: "LocalTZA \<Rightarrow> Date \<Rightarrow> num" where
  "getSeconds tza d = map_option (\<lambda>t. SecFromTime (LocalTime tza t)) d"

definition getMilliseconds :: "LocalTZA \<Rightarrow> Date \<Rightarrow> num" where
  "getMilliseconds tza d = map_option (\<lambda>t. msFromTime (LocalTime tza t)) d"

text \<open>
  \<^verbatim>\<open>new Date(year, month, date, hours, minutes, seconds, ms)\<close>: a NaN argument gives
  an Invalid Date; a year from 0 to 99 stands for 1900 + year; the fields are read as a
  local time and converted with the host's offset.
\<close>

definition new_Date_fields :: "LocalTZA \<Rightarrow> num \<Rightarrow> num \<Rightarrow> num \<Rightarrow> num \<Rightarrow> num \<Rightarrow> num \<Rightarrow> num \<Rightarrow> Date" where
  "new_Date_fields tza year month date hours minutes seconds ms =
     do {
       y \<leftarrow> year; m \<leftarrow> month; dt \<leftarrow> date; h \<leftarrow> hours; mi \<leftarrow> minutes; s \<leftarrow> seconds;
       milli \<leftarrow> ms;
       let yr = (if 0 \<le> y \<and> y \<le> 99 then 1900 + y else y);
       let finalDate = MakeDate (MakeDay yr m dt) (MakeTime h mi s milli);
       TimeClip (UTC tza finalDate)
     }"

text \<open>The JavaScript comparison \<^verbatim>\<open>a === b\<close> on numbers: NaN equals nothing.\<close>

definition strict_equals :: "num \<Rightarrow> num \<Rightarrow> bool" where
  "strict_equals a b = (case (a, b) of (Some x, Some y) \<Rightarrow> x = y | _ \<Rightarrow> False)"

section \<open>date.js: the date portion of a Date\<close>

text \<open>
  \<^verbatim>\<open>export const toDate = (d) => new Date(d.getFullYear(), d.getMonth(), d.getDate());\<close>
  The constructor's missing arguments are 0.
\<close>

definition toDate :: "LocalTZA \<Rightarrow> Date \<Rightarrow> Date" where
  "toDate tza d =
     new_Date_fields tza (getFullYear tza d) (getMonth tza d) (getDate tza d)
       (Some 0) (Some 0) (Some 0) (Some 0)"

text \<open>
  \<^verbatim>\<open>export const isSameDay = (a, b) => a.getFullYear() === b.getFullYear() &&
    a.getMonth() === b.getMonth() && a.getDate() === b.getDate();\<close>
\<close>

definition isSameDay :: "LocalTZA \<Rightarrow> Date \<Rightarrow> Date \<Rightarrow> bool" where
  "isSameDay tza a b =
     (strict_equals (getFullYear tza a) (getFullYear tza b) \<and>
      strict_equals (getMonth tza a) (getMonth tza b) \<and>
      strict_equals (getDate tza a) (getDate tza b))"

section \<open>date.js: shifting by epoch arithmetic\<close>

text \<open>\<^verbatim>\<open>const shift = (d, millis) => new Date(d.valueOf() + millis);\<close>\<close>

definition shift :: "Date \<Rightarrow> num \<Rightarrow> Date" where
  "shift d millis = new_Date (num_add (valueOf d) millis)"

text \<open>\<^verbatim>\<open>export const shiftDate = (d, n) => shift(d, n * 24 * 60 * 60 * 1000);\<close>\<close>

definition shiftDate :: "Date \<Rightarrow> num \<Rightarrow> Date" where
  "shiftDate d n =
     shift d (num_mul (num_mul (num_mul (num_mul n (Some 24)) (Some 60)) (Some 60)) (Some 1000))"

text \<open>\<^verbatim>\<open>export const shiftHour = (d, n) => shift(d, n * 60 * 60 * 1000);\<close>\<close>

definition shiftHour :: "Date \<Rightarrow> num \<Rightarrow> Date" where
  "shiftHour d n = shift d (num_mul (num_mul (num_mul n (Some 60)) (Some 60)) (Some 1000))"

text \<open>An Instant of the specification: a Date whose time value is not NaN.\<close>

definition is_instant :: "Date \<Rightarrow> bool" where
  "is_instant d = (case d of None \<Rightarrow> False | Some t \<Rightarrow> \<bar>t\<bar> \<le> maxTime)"

text \<open>The start of the local day of \<open>t\<close>, as a local time value.\<close>

definition local_day_start :: "LocalTZA \<Rightarrow> int \<Rightarrow> int" where
  "local_day_start tza t = Day (LocalTime tza t) * msPerDay"

text \<open>A host whose default zone has one constant offset (in milliseconds).\<close>

definition fixed_offset :: "int \<Rightarrow> LocalTZA" where
  "fixed_offset c = (\<lambda>t isUTC. c)"

text \<open>
  A host whose default zone is America/Sao_Paulo, around the start of daylight saving
  time on 4 November 2018: at 03:00 UTC (1541300400000) the clocks went from 00:00
  (UTC-3) to 01:00 (UTC-2).  A local time that was skipped is read with the offset
  before the transition, as the ECMAScript specification requires.
\<close>

definition sao_paulo_2018 :: LocalTZA where
  "sao_paulo_2018 = (\<lambda>t isUTC.
     if isUTC then (if t < 1541300400000 then - 10800000 else - 7200000)
     else (if t < 1541300400000 - 7200000 then - 10800000 else - 7200000))"

section \<open>moment and moment-timezone\<close>

text \<open>
  The zone functions of the repository call \<^verbatim>\<open>moment-timezone\<close>.  The part of the
  library they use is modelled here after the library's code.

  A zone of the library holds two arrays: \<^verbatim>\<open>offsets[i]\<close> (minutes to add to local time
  to get UTC, so positive west of Greenwich) is in force for the time stamps below
  \<^verbatim>\<open>untils[i]\<close>, and the last \<^verbatim>\<open>untils\<close> entry is Infinity.  The record keeps the
  pairs \<open>(untils[i], offsets[i])\<close> but the last in \<open>periods\<close> and the last offset in
  \<open>final_offset\<close>.  Offsets are whole minutes.
\<close>

record Zone =
  periods :: "(int \<times> int) list"
  final_offset :: int

text \<open>
  The zone data of the library: the zone that it holds under a normalised name, as a
  property of its own of the object \<^verbatim>\<open>zones\<close> or through a link of the object
  \<^verbatim>\<open>links\<close>; \<open>None\<close> when the data holds nothing under the name.
\<close>

type_synonym ZoneDB = "string \<Rightarrow> Zone option"

text \<open>
  An exception of JavaScript.  The only one these functions can raise is the TypeError of
  calling a method that is \<^verbatim>\<open>undefined\<close>, or a method of \<^verbatim>\<open>undefined\<close>.
\<close>

datatype error = TypeError

text \<open>
  \<^verbatim>\<open>
    function normalizeName (name) {
      return (name || '').toLowerCase().replace(/\//g, '_');
    }
  \<close>
  A character of a string is one of the code units 0 to 255 (Latin-1); the capital
  letters among them are A to Z and the letters from 192 to 222 but the sign 215.
\<close>

definition toLowerCase :: "string \<Rightarrow> string" where
  "toLowerCase s =
     map (\<lambda>c. let n = (of_char c :: nat)
              in if (65 \<le> n \<and> n \<le> 90) \<or> (192 \<le> n \<and> n \<le> 222 \<and> n \<noteq> 215)
                 then char_of (n + 32) else c) s"

definition normalizeName :: "string \<Rightarrow> string" where
  "normalizeName name = map (\<lambda>c. if c = CHR ''/'' then CHR ''_'' else c) (toLowerCase name)"

text \<open>
  The members that every plain object inherits from \<^verbatim>\<open>Object.prototype\<close>, each with
  the string that JavaScript makes of it (for a function the text is the engine's; it is
  given as V8 prints it).  A property read \<^verbatim>\<open>object[name]\<close> finds them when the object
  has no property of its own of that name.
\<close>

definition Object_prototype :: "string \<Rightarrow> string option" where
  "Object_prototype name =
     (if name = ''__proto__'' then Some ''[object Object]''
      else if name = ''constructor'' then Some ''function Object() { [native code] }''
      else if name \<in> set [''__defineGetter__'', ''__defineSetter__'', ''hasOwnProperty'',
                ''__lookupGetter__'', ''__lookupSetter__'', ''isPrototypeOf'',
                ''propertyIsEnumerable'', ''toString'', ''valueOf'', ''toLocaleString'']
      then Some (''function '' @ name @ ''() { [native code] }'')
      else None)"

text \<open>
  \<^verbatim>\<open>
    function getZone (name, caller) {
      name = normalizeName(name);
      var zone = zones[name];
      var link;
      if (zone instanceof Zone) { return zone; }
      if (typeof zone === 'string') { zone = new Zone(zone); zones[name] = zone; return zone; }
      if (links[name] && caller !== getZone && (link = getZone(links[name], getZone))) {
        zone = zones[name] = new Zone(); zone._set(link); zone.name = names[name];
        return zone;
      }
      return null;
    }
  \<close>
  When the data holds nothing under the normalised name and the name is one of the
  inherited members (\<^verbatim>\<open>constructor\<close>, \<^verbatim>\<open>__proto__\<close>), then \<^verbatim>\<open>zones[name]\<close> is
  neither a zone nor a string, \<^verbatim>\<open>links[name]\<close> is truthy, and the inner call
  \<^verbatim>\<open>getZone(links[name], getZone)\<close> raises a TypeError in \<^verbatim>\<open>normalizeName\<close>: the
  member has no method \<^verbatim>\<open>toLowerCase\<close>.  Otherwise the result is the zone, or
  \<^verbatim>\<open>null\<close> (\<open>None\<close>).
\<close>

definition getZone :: "ZoneDB \<Rightarrow> string \<Rightarrow> error + Zone option" where
  "getZone db name =
     (let n = normalizeName name
      in case db n of
           Some z \<Rightarrow> Inr (Some z)
         | None \<Rightarrow> if Object_prototype n \<noteq> None then Inl TypeError else Inr None)"

text \<open>
  \<^verbatim>\<open>Zone.prototype.utcOffset(timestamp)\<close>: the offset of the first period whose
  \<^verbatim>\<open>until\<close> lies beyond the time stamp.
\<close>

fun offset_at :: "(int \<times> int) list \<Rightarrow> int \<Rightarrow> int \<Rightarrow> int" where
  "offset_at [] fin target = fin"
| "offset_at ((until, off) # rest) fin target =
     (if target < until then off else offset_at rest fin target)"

definition Zone_utcOffset :: "Zone \<Rightarrow> int \<Rightarrow> int" where
  "Zone_utcOffset z timestamp = offset_at (periods z) (final_offset z) timestamp"

text \<open>
  \<^verbatim>\<open>Zone.prototype.parse(timestamp)\<close>: the offset for a local time given as if it were
  UTC.  The library's loop, with its two settings at their defaults:
  \<^verbatim>\<open>
    for (i = 0; i < max; i++) {
      offset = offsets[i]; offsetNext = offsets[i + 1]; offsetPrev = offsets[i ? i - 1 : i];
      if (offset < offsetNext && tz.moveAmbiguousForward) offset = offsetNext;
      else if (offset > offsetPrev && tz.moveInvalidForward) offset = offsetPrev;
      if (target < untils[i] - (offset * 60000)) return offsets[i];
    }
    return offsets[max];
  \<close>
\<close>

definition moveAmbiguousForward :: bool where
  "moveAmbiguousForward = False"

definition moveInvalidForward :: bool where
  "moveInvalidForward = True"

fun parse_loop :: "int \<Rightarrow> (int \<times> int) list \<Rightarrow> int \<Rightarrow> int \<Rightarrow> int" where
  "parse_loop offsetPrev [] fin target = fin"
| "parse_loop offsetPrev ((until, off) # rest) fin target =
     (let offsetNext = (case rest of [] \<Rightarrow> fin | (u, off') # r \<Rightarrow> off');
          offset = (if off < offsetNext \<and> moveAmbiguousForward then offsetNext
                    else if off > offsetPrev \<and> moveInvalidForward then offsetPrev
                    else off)
      in if target < until - offset * 60000 then off
         else parse_loop off rest fin target)"

definition Zone_parse :: "Zone \<Rightarrow> int \<Rightarrow> int" where
  "Zone_parse z target =
     (case periods z of
        [] \<Rightarrow> final_offset z
      | (until, off) # rest \<Rightarrow> parse_loop off (periods z) (final_offset z) target)"

text \<open>
  A moment object: the Date inside (\<^verbatim>\<open>_d\<close>), the UTC flag (\<^verbatim>\<open>_isUTC\<close>) and the
  offset in minutes east of Greenwich (\<^verbatim>\<open>_offset\<close>, 0 while unset).  In UTC mode the
  Date inside holds the time value plus the offset, and the getters read its UTC fields;
  in local mode they read its local fields.  A moment is invalid when its Date is.
\<close>

record Moment =
  m_d :: num
  m_isUTC :: bool
  m_offset :: int

text \<open>\<^verbatim>\<open>moment(t)\<close> for a Date or a number \<open>t\<close>: a local-mode copy.\<close>

definition moment :: "num \<Rightarrow> Moment" where
  "moment t = \<lparr>m_d = new_Date t, m_isUTC = False, m_offset = 0\<rparr>"

text \<open>\<^verbatim>\<open>m.valueOf()\<close> is \<^verbatim>\<open>this._d.valueOf() - (this._offset || 0) * 60000\<close>.\<close>

definition moment_valueOf :: "Moment \<Rightarrow> num" where
  "moment_valueOf m = map_option (\<lambda>d. d - m_offset m * 60000) (m_d m)"

text \<open>\<^verbatim>\<open>m.toDate()\<close> is \<^verbatim>\<open>new Date(this.valueOf())\<close>.\<close>

definition moment_toDate :: "Moment \<Rightarrow> Date" where
  "moment_toDate m = new_Date (moment_valueOf m)"

text \<open>
  \<^verbatim>\<open>m.utcOffset(input)\<close> with a number of minutes: an invalid moment is left as it is;
  otherwise the moment goes to UTC mode with the new offset and the Date inside is moved
  by the difference to the old offset (\<^verbatim>\<open>setTime\<close>, which clips).
\<close>

definition utcOffset_set :: "Moment \<Rightarrow> int \<Rightarrow> Moment" where
  "utcOffset_set m input =
     (case m_d m of
        None \<Rightarrow> m
      | Some d \<Rightarrow>
          \<lparr>m_d = (if m_offset m \<noteq> input then TimeClip (d + (input - m_offset m) * 60000)
                   else Some d),
           m_isUTC = True, m_offset = input\<rparr>)"

text \<open>
  \<^verbatim>\<open>moment.updateOffset(m)\<close> of moment-timezone for a moment with zone \<open>z\<close>:
  \<^verbatim>\<open>m.utcOffset(-z.utcOffset(m))\<close>.
\<close>

definition updateOffset :: "Zone \<Rightarrow> Moment \<Rightarrow> Moment" where
  "updateOffset z m =
     (case moment_valueOf m of
        None \<Rightarrow> m
      | Some v \<Rightarrow> utcOffset_set m (- Zone_utcOffset z v))"

text \<open>
  \<^verbatim>\<open>
    fn.tz = function (name, keepTime) {
      if (name) {
        this._z = getZone(name);
        if (this._z) { moment.updateOffset(this, keepTime); }
        else { logError("Moment Timezone has no data for " + name + ". ..."); }
        return this;
      }
      if (this._z) { return this._z.name; }
    };
  \<close>
  With a non-empty name \<^verbatim>\<open>getZone\<close> is called, which may raise; the moment is moved
  to the zone when the data holds it; when they do not, the library logs an error and
  leaves the moment as it is.  The method then returns the moment.  With an empty name
  it is the getter of the zone name, which is \<^verbatim>\<open>undefined\<close> for a moment without
  zone: \<open>None\<close>.  \<open>tz_applied\<close> is the moment after the call, \<open>tz_method\<close> the value
  the call returns.
\<close>

definition tz_applied :: "ZoneDB \<Rightarrow> Moment \<Rightarrow> string \<Rightarrow> error + Moment" where
  "tz_applied db m name =
     (if name \<noteq> [] then
        (case getZone db name of
           Inl e \<Rightarrow> Inl e
         | Inr zo \<Rightarrow> Inr (case zo of Some z \<Rightarrow> updateOffset z m | None \<Rightarrow> m))
      else Inr m)"

definition tz_method :: "ZoneDB \<Rightarrow> Moment \<Rightarrow> string \<Rightarrow> error + Moment option" where
  "tz_method db m name =
     (if name \<noteq> [] then
        (case tz_applied db m name of Inl e \<Rightarrow> Inl e | Inr m' \<Rightarrow> Inr (Some m'))
      else Inr None)"

text \<open>The getters \<^verbatim>\<open>year()\<close>, \<^verbatim>\<open>month()\<close>, ...: NaN for an invalid moment.\<close>

definition moment_get :: "(int \<Rightarrow> int) \<Rightarrow> LocalTZA \<Rightarrow> Moment \<Rightarrow> num" where
  "moment_get field tza m =
     map_option (\<lambda>d. field (if m_isUTC m then d else LocalTime tza d)) (m_d m)"

text \<open>
  \<^verbatim>\<open>moment.utc([year, month, date, hour, minute, second, ms])\<close>: the UTC moment with
  these fields in the proleptic Gregorian calendar (a year below 100 is kept as it is).
  The moment is invalid when a field is NaN or out of range (\<^verbatim>\<open>checkOverflow\<close>) or
  the time value is beyond the Date range.
\<close>

definition isLeapYear :: "int \<Rightarrow> bool" where
  "isLeapYear year = ((year mod 4 = 0 \<and> year mod 100 \<noteq> 0) \<or> year mod 400 = 0)"

definition daysInMonth :: "int \<Rightarrow> int \<Rightarrow> int" where
  "daysInMonth year month =
     (let modMonth = month mod 12; year' = year + (month - modMonth) div 12
      in if modMonth = 1 then (if isLeapYear year' then 29 else 28)
         else 31 - modMonth mod 7 mod 2)"

definition overflow :: "int \<Rightarrow> int \<Rightarrow> int \<Rightarrow> int \<Rightarrow> int \<Rightarrow> int \<Rightarrow> int \<Rightarrow> bool" where
  "overflow y mo d h mi s ms =
     (mo < 0 \<or> mo > 11 \<or> d < 1 \<or> d > daysInMonth y mo \<or>
      h < 0 \<or> h > 24 \<or> (h = 24 \<and> (mi \<noteq> 0 \<or> s \<noteq> 0 \<or> ms \<noteq> 0)) \<or>
      mi < 0 \<or> mi > 59 \<or> s < 0 \<or> s > 59 \<or> ms < 0 \<or> ms > 999)"

definition moment_utc_array :: "num \<Rightarrow> num \<Rightarrow> num \<Rightarrow> num \<Rightarrow> num \<Rightarrow> num \<Rightarrow> num \<Rightarrow> Moment" where
  "moment_utc_array year month date hours minutes seconds ms =
     \<lparr>m_d = do {
          y \<leftarrow> year; mo \<leftarrow> month; d \<leftarrow> date; h \<leftarrow> hours; mi \<leftarrow> minutes; s \<leftarrow> seconds;
          milli \<leftarrow> ms;
          if overflow y mo d h mi s milli then None
          else TimeClip (MakeDate (MakeDay y mo d) (MakeTime h mi s milli))
        },
      m_isUTC = True, m_offset = 0\<rparr>"

text \<open>\<^verbatim>\<open>m.add(n, 'minutes')\<close>: moves the Date inside; nothing for an invalid moment.\<close>

definition add_minutes :: "Moment \<Rightarrow> int \<Rightarrow> Moment" where
  "add_minutes m n =
     (case m_d m of
        None \<Rightarrow> m
      | Some d \<Rightarrow> m\<lparr>m_d := (if n * 60000 \<noteq> 0 then TimeClip (d + n * 60000) else Some d)\<rparr>)"

text \<open>
  \<^verbatim>\<open>moment.tz([fields], name)\<close> of moment-timezone:
  \<^verbatim>\<open>
    zone = getZone(name);
    out = moment.utc.apply(null, args);
    if (zone && !moment.isMoment(input) && needsOffset(out))
      out.add(zone.parse(out), 'minutes');
    out.tz(name);
    return out;
  \<close>
  \<^verbatim>\<open>needsOffset\<close> holds for a moment made from an array of fields.
\<close>

definition moment_tz_array :: "ZoneDB \<Rightarrow> num \<Rightarrow> num \<Rightarrow> num \<Rightarrow> num \<Rightarrow> num \<Rightarrow> num \<Rightarrow> num \<Rightarrow> string \<Rightarrow> error + Moment" where
  "moment_tz_array db year month date hours minutes seconds ms name =
     (case getZone db name of
        Inl e \<Rightarrow> Inl e
      | Inr zo \<Rightarrow>
          (let out = moment_utc_array year month date hours minutes seconds ms;
               out' = (case zo of
                         Some zone \<Rightarrow>
                           (case moment_valueOf out of
                              None \<Rightarrow> out
                            | Some v \<Rightarrow> add_minutes out (Zone_parse zone v))
                       | None \<Rightarrow> out)
           in tz_applied db out' name))"

section \<open>timezones.js: zone conversion\<close>

text \<open>
  \<^verbatim>\<open>
  export const zonedToLocal = (t, zone) => {
    const m = moment(t).tz(zone);
    return new Date(m.year(), m.month(), m.date(), m.hour(), m.minute(), m.second(),
      m.millisecond());
  };
  \<close>
\<close>

definition zonedToLocal :: "LocalTZA \<Rightarrow> ZoneDB \<Rightarrow> Date \<Rightarrow> string \<Rightarrow> error + Date" where
  "zonedToLocal tza db t zone =
     (case tz_method db (moment (valueOf t)) zone of
        Inl e \<Rightarrow> Inl e
      | Inr None \<Rightarrow> Inl TypeError
      | Inr (Some m) \<Rightarrow>
          Inr (new_Date_fields tza
                (moment_get YearFromTime tza m) (moment_get MonthFromTime tza m)
                (moment_get DateFromTime tza m) (moment_get HourFromTime tza m)
                (moment_get MinFromTime tza m) (moment_get SecFromTime tza m)
                (moment_get msFromTime tza m)))"

text \<open>
  \<^verbatim>\<open>
  export const localToZoned = (t, zone) =>
    moment.tz([t.getFullYear(), t.getMonth(), t.getDate(), t.getHours(), t.getMinutes(),
      t.getSeconds(), t.getMilliseconds()], zone).toDate();
  \<close>
\<close>

definition localToZoned :: "LocalTZA \<Rightarrow> ZoneDB \<Rightarrow> Date \<Rightarrow> string \<Rightarrow> error + Date" where
  "localToZoned tza db t zone =
     (case moment_tz_array db (getFullYear tza t) (getMonth tza t) (getDate tza t)
             (getHours tza t) (getMinutes tza t) (getSeconds tza t) (getMilliseconds tza t)
             zone of
        Inl e \<Rightarrow> Inl e
      | Inr m \<Rightarrow> Inr (moment_toDate m))"

text \<open>The wall-clock time of the time value \<open>t\<close> in the zone \<open>z\<close>, as a time value.\<close>

definition wall_time :: "Zone \<Rightarrow> int \<Rightarrow> int" where
  "wall_time z t = t - Zone_utcOffset z t * 60000"

text \<open>
  Zone data for the examples: UTC, and America/New_York and Australia/Sydney with their
  transitions from 2017 to 2019 (Eastern time: 300 minutes in winter, 240 in summer;
  Sydney: -660 in the southern summer, -600 in winter), under their normalised names.
\<close>

definition zone_UTC :: Zone where
  "zone_UTC = \<lparr>periods = [], final_offset = 0\<rparr>"

definition zone_New_York :: Zone where
  "zone_New_York =
     \<lparr>periods = [(1489302000000, 300), (1509861600000, 240), (1520751600000, 300),
                 (1541311200000, 240), (1552201200000, 300), (1572760800000, 240)],
      final_offset = 300\<rparr>"

definition zone_Sydney :: Zone where
  "zone_Sydney =
     \<lparr>periods = [(1491062400000, - 660), (1506787200000, - 600), (1522512000000, - 660),
                 (1538841600000, - 600), (1554566400000, - 660)],
      final_offset = - 600\<rparr>"

definition example_db :: ZoneDB where
  "example_db name =
     (if name = ''utc'' then Some zone_UTC
      else if name = ''america_new_york'' then Some zone_New_York
      else if name = ''australia_sydney'' then Some zone_Sydney
      else None)"

text \<open>
  Zone data are regular at an Instant \<open>t\<close> when every period between two changes of
  the offset lasts at least as long as the zone's offsets are apart (\<open>spaced\<close>, with the
  spread in minutes), and, if the period before the one in which \<open>t\<close> lies began with a
  backward change of the clocks (to an offset further west), the change into the period
  of \<open>t\<close> goes forward at least as far as the offset before that backward change
  (\<open>change_regular_at\<close>), as it does in the yearly alternation of standard and daylight
  time.
\<close>

fun spaced :: "int \<Rightarrow> (int \<times> int) list \<Rightarrow> bool" where
  "spaced d [] = True"
| "spaced d [p] = True"
| "spaced d ((u, off) # (u', off') # rest) =
     (u + d * 60000 \<le> u' \<and> spaced d ((u', off') # rest))"

fun change_regular_at :: "int \<Rightarrow> (int \<times> int) list \<Rightarrow> int \<Rightarrow> int \<Rightarrow> bool" where
  "change_regular_at prev [] fin t = True"
| "change_regular_at prev ((u, off) # rest) fin t =
     (t < u \<or>
      ((case rest of [] \<Rightarrow> True | (u', off') # r \<Rightarrow> t < u') \<and> prev < off \<longrightarrow>
         (case rest of [] \<Rightarrow> fin | (u', off') # r \<Rightarrow> off') \<le> prev) \<and>
      change_regular_at off rest fin t)"

definition Zone_offsets :: "Zone \<Rightarrow> int list" where
  "Zone_offsets z = final_offset z # map snd (periods z)"

definition Zone_spread :: "Zone \<Rightarrow> int" where
  "Zone_spread z = Max (set (Zone_offsets z)) - Min (set (Zone_offsets z))"

definition Zone_regular_at :: "Zone \<Rightarrow> int \<Rightarrow> bool" where
  "Zone_regular_at z t =
     (spaced (Zone_spread z) (periods z) \<and>
      change_regular_at (case periods z of [] \<Rightarrow> final_offset z | (u, off) # r \<Rightarrow> off)
        (periods z) (final_offset z) t)"

text \<open>
  Europe/London around the end of double summer time in 1945: two hours ahead of
  Greenwich until 15 July, one hour ahead until 7 October, then Greenwich time.  These
  data are not regular at the Instants after the second change.
\<close>

definition zone_London_1945 :: Zone where
  "zone_London_1945 =
     \<lparr>periods = [(- 772066800000, - 120), (- 764805600000, - 60)], final_offset = 0\<rparr>"


text \<open>A Date object as JavaScript can hold it: an Instant or an Invalid Date.\<close>

definition is_date :: "Date \<Rightarrow> bool" where
  "is_date d = (case d of None \<Rightarrow> True | Some t \<Rightarrow> \<bar>t\<bar> \<le> maxTime)"


section \<open>moment: formatting the offset\<close>

text \<open>
  \<^verbatim>\<open>m.utcOffset()\<close> without argument: NaN for an invalid moment, the offset of a moment
  in UTC mode, and for a moment in local mode the host's offset rounded to a quarter of
  an hour, \<^verbatim>\<open>-Math.round(this._d.getTimezoneOffset() / 15) * 15\<close>, where
  \<^verbatim>\<open>getTimezoneOffset()\<close> is \<open>(t - LocalTime t) / msPerMinute\<close>.
\<close>

definition getDateOffset :: "LocalTZA \<Rightarrow> int \<Rightarrow> int" where
  "getDateOffset tza t = - ((2 * (t - LocalTime tza t) + 900000) div 1800000) * 15"

definition utcOffset_get :: "LocalTZA \<Rightarrow> Moment \<Rightarrow> num" where
  "utcOffset_get tza m =
     map_option (\<lambda>d. if m_isUTC m then m_offset m else getDateOffset tza d) (m_d m)"

text \<open>Decimal digits and \<^verbatim>\<open>zeroFill(number, targetLength)\<close> for a number that is not negative.\<close>

definition digit_char :: "nat \<Rightarrow> char" where
  "digit_char n = char_of (48 + n)"

fun decimal :: "nat \<Rightarrow> string" where
  "decimal n = (if n < 10 then [digit_char n] else decimal (n div 10) @ [digit_char (n mod 10)])"

declare decimal.simps [simp del]

definition zeroFill :: "nat \<Rightarrow> nat \<Rightarrow> string" where
  "zeroFill number targetLength =
     replicate (targetLength - length (decimal number)) (CHR ''0'') @ decimal number"

text \<open>
  The format tokens \<^verbatim>\<open>Z\<close> (separator \<^verbatim>\<open>:\<close>) and \<^verbatim>\<open>ZZ\<close> (no separator):
  \<^verbatim>\<open>
    var offset = this.utcOffset(); var sign = '+';
    if (offset < 0) { offset = -offset; sign = '-'; }
    return sign + zeroFill(~~(offset / 60), 2) + separator + zeroFill(~~(offset) % 60, 2);
  \<close>
  An invalid moment formats as \<^verbatim>\<open>Invalid date\<close>.
\<close>

definition format_offset :: "string \<Rightarrow> int \<Rightarrow> string" where
  "format_offset separator off =
     (let sign = (if off < 0 then ''-'' else ''+''); a = nat \<bar>off\<bar>
      in sign @ zeroFill (a div 60) 2 @ separator @ zeroFill (a mod 60) 2)"

definition moment_format_offset :: "string \<Rightarrow> LocalTZA \<Rightarrow> Moment \<Rightarrow> string" where
  "moment_format_offset separator tza m =
     (case utcOffset_get tza m of
        None \<Rightarrow> ''Invalid date''
      | Some off \<Rightarrow> format_offset separator off)"

text \<open>
  \<^verbatim>\<open>parseInt(string)\<close> on a string without leading white space and without the prefix
  \<^verbatim>\<open>0x\<close> (the strings of \<^verbatim>\<open>format('ZZ')\<close> start with a sign or a letter): an optional
  sign, then decimal digits up to the first other character; NaN when there is no digit.
\<close>

definition is_digit :: "char \<Rightarrow> bool" where
  "is_digit c = (48 \<le> (of_char c :: nat) \<and> (of_char c :: nat) \<le> 57)"

definition digits_value :: "string \<Rightarrow> nat" where
  "digits_value ds = foldl (\<lambda>acc c. acc * 10 + (of_char c - 48)) 0 ds"

definition parseInt :: "string \<Rightarrow> num" where
  "parseInt s =
     (let sign = (case s of c # r \<Rightarrow> if c = CHR ''-'' then - 1 else 1 | [] \<Rightarrow> 1);
          rest = (case s of c # r \<Rightarrow> if c = CHR ''-'' \<or> c = CHR ''+'' then r else s | [] \<Rightarrow> s);
          ds = takeWhile is_digit rest
      in if ds = [] then None else Some (sign * int (digits_value ds)))"

section \<open>lodash: sortBy\<close>

text \<open>
  \<^verbatim>\<open>sortBy(zones, ['offset', 'name'])\<close> sorts the entries with the comparison
  \<^verbatim>\<open>compareMultiple\<close>: \<^verbatim>\<open>compareAscending\<close> on the offsets, then on the names, then the
  difference of the positions in the input.  \<^verbatim>\<open>compareAscending\<close> puts NaN after every
  number.  JavaScript compares strings by their code units, position by position.
\<close>

record ZoneEntry =
  entry_name :: string
  entry_offset :: num

definition compareAscending_num :: "num \<Rightarrow> num \<Rightarrow> int" where
  "compareAscending_num a b =
     (case a of
        None \<Rightarrow> 1
      | Some x \<Rightarrow> (case b of None \<Rightarrow> - 1
                   | Some y \<Rightarrow> if x > y then 1 else if x < y then - 1 else 0))"

definition compareAscending_str :: "string \<Rightarrow> string \<Rightarrow> int" where
  "compareAscending_str a b = (if a > b then 1 else if a < b then - 1 else 0)"

definition compareMultiple :: "ZoneEntry \<times> nat \<Rightarrow> ZoneEntry \<times> nat \<Rightarrow> int" where
  "compareMultiple object other =
     (let r1 = compareAscending_num (entry_offset (fst object)) (entry_offset (fst other))
      in if r1 \<noteq> 0 then r1
         else let r2 = compareAscending_str (entry_name (fst object)) (entry_name (fst other))
              in if r2 \<noteq> 0 then r2 else int (snd object) - int (snd other))"

text \<open>
  \<^verbatim>\<open>array.sort(comparer)\<close>.  The algorithm is the engine's; for a comparison that is a
  strict total order, as \<^verbatim>\<open>compareMultiple\<close> is on entries with numbers as offsets, every
  sorting algorithm returns the same array.  It is modelled as insertion sort.
\<close>

fun insert_by :: "('a \<Rightarrow> 'a \<Rightarrow> int) \<Rightarrow> 'a \<Rightarrow> 'a list \<Rightarrow> 'a list" where
  "insert_by cmp x [] = [x]"
| "insert_by cmp x (y # ys) = (if cmp x y \<le> 0 then x # y # ys else y # insert_by cmp x ys)"

definition array_sort :: "('a \<Rightarrow> 'a \<Rightarrow> int) \<Rightarrow> 'a list \<Rightarrow> 'a list" where
  "array_sort cmp xs = foldr (insert_by cmp) xs []"

definition sortBy_offset_name :: "ZoneEntry list \<Rightarrow> ZoneEntry list" where
  "sortBy_offset_name zones =
     map fst (array_sort compareMultiple (zip zones [0 ..< length zones]))"

section \<open>timezones.js: the zone catalog\<close>

text \<open>
  \<^verbatim>\<open>
  function sortZones(zones) {
    const nowM = moment(Date.now());
    zones = zones.map(z => ({ name: z, offset: parseInt(nowM.tz(z).format('ZZ')) }));
    zones = sortBy(zones, ['offset', 'name']);
    return map(zones, 'name');
  }
  \<close>
  The one moment \<^verbatim>\<open>nowM\<close> is moved from zone to zone.  For the empty name
  \<^verbatim>\<open>nowM.tz(z)\<close> is \<^verbatim>\<open>undefined\<close> and the call of \<^verbatim>\<open>format\<close> raises a TypeError;
  \<^verbatim>\<open>nowM.tz(z)\<close> itself raises when \<^verbatim>\<open>getZone\<close> does.
\<close>

fun zones_map :: "LocalTZA \<Rightarrow> ZoneDB \<Rightarrow> Moment \<Rightarrow> string list \<Rightarrow> error + ZoneEntry list" where
  "zones_map tza db nowM [] = Inr []"
| "zones_map tza db nowM (z # zs) =
     (case tz_method db nowM z of
        Inl e \<Rightarrow> Inl e
      | Inr None \<Rightarrow> Inl TypeError
      | Inr (Some nowM') \<Rightarrow>
          (case zones_map tza db nowM' zs of
             Inl e \<Rightarrow> Inl e
           | Inr es \<Rightarrow>
               Inr (\<lparr>entry_name = z,
                      entry_offset = parseInt (moment_format_offset [] tza nowM')\<rparr> # es)))"

definition sortZones :: "LocalTZA \<Rightarrow> ZoneDB \<Rightarrow> int \<Rightarrow> string list \<Rightarrow> error + string list" where
  "sortZones tza db now zones =
     (case zones_map tza db (moment (Some now)) zones of
        Inl e \<Rightarrow> Inl e
      | Inr es \<Rightarrow> Inr (map entry_name (sortBy_offset_name es)))"

text \<open>
  The module's constants, set once when the module is loaded (at the time \<open>now\<close>):
  \<^verbatim>\<open>
  const TIMEZONES = Object.freeze(require('./timezones.json'));
  const COMMON_ZONES = Object.freeze(sortZones(Object.keys(TIMEZONES)));
  \<close>
  The file \<^verbatim>\<open>timezones.json\<close> is not part of the sources; the table is a parameter: the
  pairs of zone identifier and friendly name, in the order of the object's keys.
\<close>

record Module =
  TIMEZONES :: "(string \<times> string) list"
  COMMON_ZONES :: "string list"

definition load_module :: "LocalTZA \<Rightarrow> ZoneDB \<Rightarrow> int \<Rightarrow> (string \<times> string) list \<Rightarrow> error + Module" where
  "load_module tza db now json =
     (case sortZones tza db now (map fst json) of
        Inl e \<Rightarrow> Inl e
      | Inr zs \<Rightarrow> Inr \<lparr>TIMEZONES = json, COMMON_ZONES = zs\<rparr>)"

text \<open>\<^verbatim>\<open>export const getCommonZones = () => COMMON_ZONES;\<close>\<close>

definition getCommonZones :: "Module \<Rightarrow> string list" where
  "getCommonZones md = COMMON_ZONES md"

text \<open>
  \<^verbatim>\<open>function beautify(zone) { return zone.replace(/_/, ' '); }\<close>
  A regular expression without the flag \<^verbatim>\<open>g\<close> replaces the first match only.
\<close>

fun replace_first :: "char \<Rightarrow> char \<Rightarrow> string \<Rightarrow> string" where
  "replace_first a b [] = []"
| "replace_first a b (c # cs) = (if c = a then b # cs else c # replace_first a b cs)"

definition beautify :: "string \<Rightarrow> string" where
  "beautify zone = replace_first (CHR ''_'') (CHR '' '') zone"

text \<open>
  \<^verbatim>\<open>moment.tz(Date.now(), zone)\<close>: the UTC moment of the time value, moved to the zone (a
  moment made from a number needs no offset from \<^verbatim>\<open>parse\<close>).
\<close>

definition moment_tz_number :: "ZoneDB \<Rightarrow> int \<Rightarrow> string \<Rightarrow> error + Moment" where
  "moment_tz_number db n name =
     (case getZone db name of
        Inl e \<Rightarrow> Inl e
      | Inr zo \<Rightarrow> tz_applied db \<lparr>m_d = TimeClip n, m_isUTC = True, m_offset = 0\<rparr> name)"

text \<open>
  \<^verbatim>\<open>
  export function humanizeZone(zone) {
    const offset = moment.tz(Date.now(), zone).format('Z');
    const name = TIMEZONES[zone] || beautify(zone);
    return `(GMT${offset}) ${name}`;
  }
  \<close>
  \<^verbatim>\<open>moment.tz\<close> raises when \<^verbatim>\<open>getZone\<close> does.  \<^verbatim>\<open>TIMEZONES[zone]\<close> is the friendly
  name when the table has the key; a friendly name that is the empty string is falsy.
  When the table has no such key, the property read finds the member of that name which
  the table inherits from \<^verbatim>\<open>Object.prototype\<close>, which is truthy, and the template
  makes a string of it; a name that is neither a key nor such a member is falsy.
\<close>

definition humanizeZone :: "LocalTZA \<Rightarrow> ZoneDB \<Rightarrow> int \<Rightarrow> Module \<Rightarrow> string \<Rightarrow> error + string" where
  "humanizeZone tza db now md zone =
     (case moment_tz_number db now zone of
        Inl e \<Rightarrow> Inl e
      | Inr m \<Rightarrow>
          (let off = moment_format_offset '':'' tza m;
               name = (case map_of (TIMEZONES md) zone of
                         Some n \<Rightarrow> if n \<noteq> [] then n else beautify zone
                       | None \<Rightarrow>
                           (case Object_prototype zone of
                              Some text \<Rightarrow> text
                            | None \<Rightarrow> beautify zone))
           in Inr (''(GMT'' @ off @ '') '' @ name)))"

text \<open>The offset of a zone of the database at a time, in minutes east of Greenwich.\<close>

definition current_offset :: "ZoneDB \<Rightarrow> int \<Rightarrow> string \<Rightarrow> int" where
  "current_offset db now z =
     (case getZone db z of Inr (Some zn) \<Rightarrow> - Zone_utcOffset zn now | _ \<Rightarrow> 0)"

text \<open>Zone data for the examples of the catalog.\<close>

definition zone_Port_of_Spain :: Zone where
  "zone_Port_of_Spain = \<lparr>periods = [], final_offset = 240\<rparr>"

definition zone_Kolkata :: Zone where
  "zone_Kolkata = \<lparr>periods = [], final_offset = - 330\<rparr>"

definition catalog_db :: ZoneDB where
  "catalog_db name =
     (if name = ''america_port_of_spain'' then Some zone_Port_of_Spain
      else if name = ''asia_kolkata'' then Some zone_Kolkata
      else example_db name)"


text \<open>
  The number that \<^verbatim>\<open>parseInt\<close> reads from the \<^verbatim>\<open>ZZ\<close> format of an offset: hours
  times 100 plus minutes, with the offset's sign.
\<close>

definition hhmm :: "int \<Rightarrow> int" where
  "hhmm off = (if off < 0 then - 1 else 1) * (\<bar>off\<bar> div 60 * 100 + \<bar>off\<bar> mod 60)"

text \<open>
  A zone name that \<^verbatim>\<open>nowM.tz(z)\<close> can move the moment to at the time \<open>now\<close>: it is
  not empty, the database knows it, and the wall-clock time is within the Date range.
\<close>

definition zone_usable :: "ZoneDB \<Rightarrow> int \<Rightarrow> string \<Rightarrow> bool" where
  "zone_usable db now z =
     (z \<noteq> [] \<and>
      (case getZone db z of Inr (Some zn) \<Rightarrow> \<bar>wall_time zn now\<bar> \<le> maxTime | _ \<Rightarrow> False))"

text \<open>The order of the catalog: by offset, then by name.\<close>

definition offset_then_name :: "ZoneDB \<Rightarrow> int \<Rightarrow> string \<Rightarrow> string \<Rightarrow> bool" where
  "offset_then_name db now a b =
     (current_offset db now a < current_offset db now b \<or>
      (current_offset db now a = current_offset db now b \<and> a \<le> b))"


text \<open>A zone name table for the examples.\<close>

definition example_timezones :: "(string \<times> string) list" where
  "example_timezones =
     [(''UTC'', ''Coordinated Universal Time''), (''Australia/Sydney'', ''Sydney''),
      (''Asia/Kolkata'', ''India Standard Time''), (''America/New_York'', ''Eastern Time'')]"

text \<open>
  The name of a zone without table entry as the specification words it: the identifier
  with its underscores replaced by spaces.
\<close>

definition spec_beautify :: "string \<Rightarrow> string" where
  "spec_beautify zone = map (\<lambda>c. if c = CHR ''_'' then CHR '' '' else c) zone"


section \<open>Double-precision arithmetic\<close>

text \<open>
  \<open>humanizedDuration\<close> divides and formats numbers that are not integers.  A JavaScript
  number is a double; a finite double is modelled as the rational number it stands for,
  and every arithmetic operation rounds its exact result to the nearest double, ties to
  the even significand (\<open>fl\<close>).  Overflow and subnormal numbers are not modelled: the
  numbers that occur lie between 2^-20 and 2^60 in absolute value, or are 0.

  \<open>ilog2 x\<close> is the integer \<open>e\<close> with \<open>2^e \<le> x < 2^(e+1)\<close>, for a positive \<open>x\<close>.
\<close>

definition ilog2 :: "rat \<Rightarrow> int" where
  "ilog2 x =
     (let k = bitlen (fst (quotient_of x)) - bitlen (snd (quotient_of x))
      in if 2 powi k \<le> x then k else k - 1)"

definition round_half_even :: "rat \<Rightarrow> int" where
  "round_half_even y =
     (let f = \<lfloor>y\<rfloor>; r = y - of_int f
      in if r < 1 / 2 then f else if 1 / 2 < r then f + 1 else if even f then f else f + 1)"

definition fl :: "rat \<Rightarrow> rat" where
  "fl x =
     (if x = 0 then 0
      else let u = 2 powi (ilog2 \<bar>x\<bar> - 52) in of_int (round_half_even (x / u)) * u)"

text \<open>
  The remainder \<^verbatim>\<open>x % y\<close> of JavaScript (exact, with the sign of \<open>x\<close>), \<^verbatim>\<open>Math.round\<close>
  (ties go up) and \<^verbatim>\<open>x.toFixed(1)\<close> for \<open>\<bar>x\<bar> < 10^21\<close>: the integer \<open>n\<close> nearest
  to \<open>10 * \<bar>x\<bar>\<close>, the larger one of two, printed with one digit after the point.
\<close>

definition js_rem :: "rat \<Rightarrow> rat \<Rightarrow> rat" where
  "js_rem x y = x - y * of_int (if x / y < 0 then \<lceil>x / y\<rceil> else \<lfloor>x / y\<rfloor>)"

definition Math_round :: "rat \<Rightarrow> int" where
  "Math_round x = \<lfloor>x + 1 / 2\<rfloor>"

definition toFixed1 :: "rat \<Rightarrow> string" where
  "toFixed1 x =
     (let n = nat \<lfloor>10 * \<bar>x\<bar> + 1 / 2\<rfloor>
      in (if x < 0 then ''-'' else []) @ decimal (n div 10) @ ''.'' @ decimal (n mod 10))"

section \<open>moment: durations\<close>

text \<open>
  \<^verbatim>\<open>moment(end).diff(start)\<close>: the difference of the two time values in milliseconds,
  NaN when one of the Dates is invalid.
\<close>

definition moment_diff :: "Date \<Rightarrow> Date \<Rightarrow> rat option" where
  "moment_diff e s =
     (case e of None \<Rightarrow> None
      | Some te \<Rightarrow> (case s of None \<Rightarrow> None | Some ts \<Rightarrow> Some (fl (of_int (te - ts)))))"

text \<open>
  \<^verbatim>\<open>duration.humanize()\<close> of a duration of \<open>ms\<close> milliseconds, in moment's English
  locale and with moment's thresholds (44 and 45 seconds, 45 minutes, 22 hours, 26 days,
  11 months):
  \<^verbatim>\<open>
    var duration = createDuration(posNegDuration).abs();
    var seconds = round(duration.as('s')); var minutes = round(duration.as('m'));
    var hours = round(duration.as('h'));   var days = round(duration.as('d'));
    var months = round(duration.as('M'));  var years = round(duration.as('y'));
    var a = seconds <= thresholds.ss && ['s', seconds] || seconds < thresholds.s && ['ss', seconds] ||
            minutes <= 1 && ['m'] || minutes < thresholds.m && ['mm', minutes] ||
            hours <= 1 && ['h'] || hours < thresholds.h && ['hh', hours] ||
            days <= 1 && ['d'] || days < thresholds.d && ['dd', days] ||
            months <= 1 && ['M'] || months < thresholds.M && ['MM', months] ||
            years <= 1 && ['y'] || ['yy', years];
  \<close>
  A duration made from milliseconds has no days or months of its own, so
  \<^verbatim>\<open>as('M')\<close> is \<^verbatim>\<open>(ms / 864e5) * 4800 / 146097\<close> and \<^verbatim>\<open>as('y')\<close> a twelfth of it.
\<close>

definition humanize_en :: "rat \<Rightarrow> string" where
  "humanize_en ms =
     (let a = \<bar>ms\<bar>;
          seconds = Math_round (fl (a / 1000));
          minutes = Math_round (fl (a / 60000));
          hours = Math_round (fl (a / 3600000));
          days = Math_round (fl (a / 86400000));
          months_exact = fl (fl (fl (a / 86400000) * 4800) / 146097);
          months = Math_round months_exact;
          years = Math_round (fl (months_exact / 12))
      in if seconds \<le> 44 then ''a few seconds''
         else if seconds < 45 then decimal (nat seconds) @ '' seconds''
         else if minutes \<le> 1 then ''a minute''
         else if minutes < 45 then decimal (nat minutes) @ '' minutes''
         else if hours \<le> 1 then ''an hour''
         else if hours < 22 then decimal (nat hours) @ '' hours''
         else if days \<le> 1 then ''a day''
         else if days < 26 then decimal (nat days) @ '' days''
         else if months \<le> 1 then ''a month''
         else if months < 11 then decimal (nat months) @ '' months''
         else if years \<le> 1 then ''a year''
         else decimal (nat years) @ '' years'')"

section \<open>date.js: humanizedDuration\<close>

text \<open>
  \<^verbatim>\<open>
  export const humanizedDuration = (start, end) => {
    const diff = moment(end).diff(start);
    const duration = moment.duration(diff);
    const minutes = duration.asMinutes();
    if (minutes <= 60 || (minutes % 60 === 0)) return duration.humanize();
    return `${(minutes / 60.0).toFixed(1)} hours`;
  };
  \<close>
  \<open>humanize\<close> stands for \<^verbatim>\<open>duration.humanize()\<close> in the locale that is in force, as a
  function of the milliseconds of the duration.  With an Invalid Date every number is NaN,
  both comparisons are false and the result is \<^verbatim>\<open>NaN hours\<close>.
\<close>

definition humanizedDuration :: "(rat \<Rightarrow> string) \<Rightarrow> Date \<Rightarrow> Date \<Rightarrow> string" where
  "humanizedDuration humanize start end' =
     (case moment_diff end' start of
        None \<Rightarrow> ''NaN hours''
      | Some diff \<Rightarrow>
          (let minutes = fl (diff / 60000)
           in if minutes \<le> 60 \<or> js_rem minutes 60 = 0 then humanize diff
              else toFixed1 (fl (minutes / 60)) @ '' hours''))"


section \<open>moment: parsing a string\<close>





section \<open>timezones.js: parseInZone\<close>









section \<open>The year of a day\<close>

lemma div_succ_gen:
  fixes a k :: int
  assumes "0 < k"
  shows "(a + 1) div k = a div k + (if (a + 1) mod k = 0 then 1 else 0)"
proof (cases "a mod k = k - 1")
  case True
  have "a = k * (a div k) + a mod k" by simp
  then have e: "a + 1 = k * (a div k + 1) + 0" using True by (simp add: algebra_simps)
  have d: "(a + 1) div k = a div k + 1"
    by (rule int_div_pos_eq[OF e]) (use assms in auto)
  have m: "(a + 1) mod k = 0"
    by (rule int_mod_pos_eq[OF e]) (use assms in auto)
  show ?thesis using d m by simp
next
  case False
  have r: "0 \<le> a mod k" "a mod k < k" using assms by auto
  have "a = k * (a div k) + a mod k" by simp
  then have e: "a + 1 = k * (a div k) + (a mod k + 1)" by simp
  have d: "(a + 1) div k = a div k"
    by (rule int_div_pos_eq[OF e]) (use r False in auto)
  have m: "(a + 1) mod k = a mod k + 1"
    by (rule int_mod_pos_eq[OF e]) (use r False in auto)
  show ?thesis using d m r by simp
qed

lemma mod_shift: "(y - c * k) mod k = y mod (k::int)"
  by (metis mod_diff_eq mod_mult_self2_is_0 diff_zero mod_mod_trivial)

text \<open>A year has as many days as lie between its first day and the next year's.\<close>

lemma DayFromYear_Suc: "DayFromYear (y + 1) = DayFromYear y + DaysInYear y"
proof -
  have a: "(y + 1 - 1969) div 4 = (y - 1969) div 4 + (if y mod 4 = 0 then 1 else 0)"
    using div_succ_gen[of 4 "y - 1969"] mod_shift[of y 492 4] by (simp add: algebra_simps)
  have b: "(y + 1 - 1901) div 100 = (y - 1901) div 100 + (if y mod 100 = 0 then 1 else 0)"
    using div_succ_gen[of 100 "y - 1901"] mod_shift[of y 19 100] by (simp add: algebra_simps)
  have c: "(y + 1 - 1601) div 400 = (y - 1601) div 400 + (if y mod 400 = 0 then 1 else 0)"
    using div_succ_gen[of 400 "y - 1601"] mod_shift[of y 4 400] by (simp add: algebra_simps)
  have d: "y mod 400 = 0 \<Longrightarrow> y mod 100 = 0" by auto
  have e: "y mod 100 = 0 \<Longrightarrow> y mod 4 = 0" by presburger
  show ?thesis
    unfolding DayFromYear_def DaysInYear_def a b c
    using d e by auto
qed

lemma DayFromYear_bounds:
  "146097 * (y - 1970) - 506 \<le> 400 * DayFromYear y"
  "400 * DayFromYear y \<le> 146097 * (y - 1970) + 589"
proof -
  define a where "a = (y - 1969) div 4"
  define b where "b = (y - 1901) div 100"
  define c where "c = (y - 1601) div 400"
  have a: "4 * a \<le> y - 1969" "y - 1969 \<le> 4 * a + 3"
    unfolding a_def by presburger+
  have b: "100 * b \<le> y - 1901" "y - 1901 \<le> 100 * b + 99"
    unfolding b_def by presburger+
  have c1: "400 * c = (y - 1601) - (y - 1601) mod 400"
    unfolding c_def by (simp add: algebra_simps minus_mod_eq_mult_div [symmetric])
  have c2: "0 \<le> (y - 1601) mod 400" "(y - 1601) mod 400 < 400" by auto
  have c: "400 * c \<le> y - 1601" "y - 1601 \<le> 400 * c + 399"
    using c1 c2 by simp_all
  have d: "DayFromYear y = 365 * (y - 1970) + a - b + c"
    by (simp add: DayFromYear_def a_def b_def c_def)
  show "146097 * (y - 1970) - 506 \<le> 400 * DayFromYear y"
    using a b c d by simp
  show "400 * DayFromYear y \<le> 146097 * (y - 1970) + 589"
    using a b c d by simp
qed

text \<open>
  \<open>YearFromDay d\<close> is the year whose days include \<open>d\<close>: the largest year that starts
  on or before \<open>d\<close>, as the ECMAScript specification defines \<^verbatim>\<open>YearFromTime\<close>.
\<close>

lemma YearFromDay_bounds:
  "DayFromYear (YearFromDay d) \<le> d" "d < DayFromYear (YearFromDay d + 1)"
proof -
  define e where "e = (400 * d) div 146097"
  have e1: "146097 * e = 400 * d - (400 * d) mod 146097"
    unfolding e_def by (simp add: algebra_simps minus_mod_eq_mult_div [symmetric])
  have e2: "0 \<le> (400 * d) mod 146097" "(400 * d) mod 146097 < 146097" by auto
  have e: "146097 * e \<le> 400 * d" "400 * d < 146097 * e + 146097"
    using e1 e2 by simp_all
  have lo: "DayFromYear (1970 + e - 1) \<le> d"
    using DayFromYear_bounds(2)[of "1970 + e - 1"] e by simp
  have hi: "d < DayFromYear (1970 + e + 1 + 1)"
    using DayFromYear_bounds(1)[of "1970 + e + 1 + 1"] e by simp
  show "DayFromYear (YearFromDay d) \<le> d"
    using lo hi unfolding YearFromDay_def e_def [symmetric] Let_def
    by (auto simp: algebra_simps)
  show "d < DayFromYear (YearFromDay d + 1)"
    using lo hi unfolding YearFromDay_def e_def [symmetric] Let_def
    by (auto simp: algebra_simps)
qed

lemma DaysInYear_ge: "365 \<le> DaysInYear y"
  by (simp add: DaysInYear_def)

lemma DayFromYear_mono: "y \<le> y' \<Longrightarrow> DayFromYear y \<le> DayFromYear y'"
proof (induction y' rule: int_ge_induct)
  case base
  show ?case by simp
next
  case (step i)
  then show ?case
    using DayFromYear_Suc[of i] DaysInYear_ge[of i] by simp
qed

lemma YearFromDay_largest:
  assumes "DayFromYear y \<le> d"
  shows "y \<le> YearFromDay d"
proof (rule ccontr)
  assume "\<not> y \<le> YearFromDay d"
  then have "YearFromDay d + 1 \<le> y" by simp
  then have "DayFromYear (YearFromDay d + 1) \<le> DayFromYear y" by (rule DayFromYear_mono)
  then show False using assms YearFromDay_bounds(2)[of d] by simp
qed

section \<open>Properties of shifting\<close>

lemma shiftDate_Some:
  "shiftDate (Some t) (Some n) = TimeClip (t + n * 86400000)"
  by (simp add: shiftDate_def shift_def new_Date_def valueOf_def num_add_def num_mul_def
      mult.commute)

lemma shiftHour_Some:
  "shiftHour (Some t) (Some n) = TimeClip (t + n * 3600000)"
  by (simp add: shiftHour_def shift_def new_Date_def valueOf_def num_add_def num_mul_def
      mult.commute)

lemma shiftDate_None:
  "shiftDate None n = None"
  by (cases n) (simp_all add: shiftDate_def shift_def new_Date_def valueOf_def num_add_def
      num_mul_def)

text \<open>
  Claim C7, as amended.  For an Instant \<open>t\<close> and an integer \<open>n\<close> such that
  \<open>t + n * 86400000\<close> is still a time value a Date can hold (at most 8.64e15 in
  absolute value), \<open>shiftDate t n\<close> is the Instant with exactly that time value, and
  shifting back by \<open>- n\<close> returns \<open>t\<close>.
\<close>

theorem shiftDate_exact_in_range:
  assumes "is_instant (Some t)" and "\<bar>t + n * 86400000\<bar> \<le> maxTime"
  shows "shiftDate (Some t) (Some n) = Some (t + n * 86400000) \<and>
         shiftDate (shiftDate (Some t) (Some n)) (Some (- n)) = Some t"
  using assms by (simp add: shiftDate_Some TimeClip_def is_instant_def)

theorem shiftDate_exact_in_range_witness:
  "is_instant (Some 1516710896789) \<and> \<bar>1516710896789 + (- 1) * 86400000\<bar> \<le> maxTime \<and>
   shiftDate (Some 1516710896789) (Some (- 1)) = Some (1516710896789 + (- 1) * 86400000) \<and>
   shiftDate (shiftDate (Some 1516710896789) (Some (- 1))) (Some (- (- 1))) = Some 1516710896789"
proof -
  have h1: "is_instant (Some 1516710896789)" by (simp add: is_instant_def maxTime_def)
  have h2: "\<bar>1516710896789 + (- 1) * 86400000\<bar> \<le> maxTime" by (simp add: maxTime_def)
  show ?thesis using h1 h2 shiftDate_exact_in_range[OF h1 h2] by blast
qed

text \<open>
  Claim C7 as the specification states it fails at the end of the Date range: the last
  Instant shifted by one day is an Invalid Date, and shifting that back does not return
  the Instant.
\<close>

theorem shiftDate_out_of_range_counterexample:
  "is_instant (Some 8640000000000000) \<and>
   shiftDate (Some 8640000000000000) (Some 1) \<noteq> Some (8640000000000000 + 1 * 86400000) \<and>
   shiftDate (shiftDate (Some 8640000000000000) (Some 1)) (Some (- 1)) \<noteq> Some 8640000000000000"
  by (simp add: shiftDate_Some shiftDate_None TimeClip_def is_instant_def maxTime_def)

text \<open>
  Claim C10, as amended.  Shifting by \<open>a\<close> days and then by \<open>b\<close> days is shifting by
  \<open>a + b\<close> days whenever the Date in between is an Instant (not an Invalid Date), and
  shifting by \<open>24 * n\<close> hours is always shifting by \<open>n\<close> days.
\<close>

theorem shiftDate_compose:
  assumes "is_instant (shiftDate d (Some a))"
  shows "shiftDate (shiftDate d (Some a)) (Some b) = shiftDate d (Some (a + b)) \<and>
         shiftHour d (num_mul (Some 24) (Some n)) = shiftDate d (Some n)"
proof (cases d)
  case None
  then show ?thesis using assms by (simp add: shiftDate_None is_instant_def)
next
  case (Some t)
  have "TimeClip (t + a * 86400000) = Some (t + a * 86400000)"
    using assms Some by (auto simp: shiftDate_Some TimeClip_def is_instant_def split: if_splits)
  then show ?thesis
    using Some by (simp add: shiftDate_Some shiftHour_Some num_mul_def algebra_simps)
qed

theorem shiftDate_compose_witness:
  "is_instant (shiftDate (Some 1516710896789) (Some 3)) \<and>
   shiftDate (shiftDate (Some 1516710896789) (Some 3)) (Some (- 5)) =
     shiftDate (Some 1516710896789) (Some (3 + (- 5))) \<and>
   shiftHour (Some 1516710896789) (num_mul (Some 24) (Some 2)) =
     shiftDate (Some 1516710896789) (Some 2)"
proof -
  have h: "is_instant (shiftDate (Some 1516710896789) (Some 3))"
    by (simp add: shiftDate_Some TimeClip_def is_instant_def maxTime_def)
  show ?thesis using h shiftDate_compose[OF h] by simp
qed

text \<open>
  Claim C10 as the specification states it fails when the first shift leaves the Date
  range: one day after the last Instant is an Invalid Date and stays one, while the
  shift by \<open>1 + (- 1) = 0\<close> days returns the Instant.
\<close>

theorem shiftDate_compose_counterexample:
  "is_instant (Some 8640000000000000) \<and>
   shiftDate (shiftDate (Some 8640000000000000) (Some 1)) (Some (- 1)) \<noteq>
     shiftDate (Some 8640000000000000) (Some (1 + (- 1)))"
  by (simp add: shiftDate_Some shiftDate_None TimeClip_def is_instant_def maxTime_def)

section \<open>Calendar fields and the Date constructor\<close>

lemma YearFromDay_eq:
  assumes "DayFromYear y \<le> d" and "d < DayFromYear (y + 1)"
  shows "YearFromDay d = y"
proof -
  have "y \<le> YearFromDay d" using assms(1) by (rule YearFromDay_largest)
  moreover have "\<not> y + 1 \<le> YearFromDay d"
  proof
    assume "y + 1 \<le> YearFromDay d"
    then have "DayFromYear (y + 1) \<le> DayFromYear (YearFromDay d)" by (rule DayFromYear_mono)
    then show False using assms(2) YearFromDay_bounds(1)[of d] by simp
  qed
  ultimately show ?thesis by simp
qed

text \<open>The calendar fields of a time value whose day number and year are known.\<close>

lemma calendar_fields:
  assumes "t div 86400000 = d" and "DayFromYear y \<le> d" and "d < DayFromYear (y + 1)"
  shows "YearFromTime t = y"
    and "DayWithinYear t = d - DayFromYear y"
    and "InLeapYear t = (if DaysInYear y = 366 then 1 else 0)"
  using assms YearFromDay_eq[OF assms(2,3)]
  by (simp_all add: YearFromTime_def DayWithinYear_def InLeapYear_def Day_def msPerDay_def)

lemma fields_of_Day:
  assumes "Day t = Day t'"
  shows "YearFromTime t = YearFromTime t'" "MonthFromTime t = MonthFromTime t'"
    "DateFromTime t = DateFromTime t'"
  using assms
  by (simp_all add: YearFromTime_def MonthFromTime_def DateFromTime_def DayWithinYear_def
      InLeapYear_def)

lemma MonthFromTime_range: "0 \<le> MonthFromTime t" "MonthFromTime t \<le> 11"
  by (simp_all add: MonthFromTime_def Let_def)

lemma MakeDay_fields: "MakeDay (YearFromTime t) (MonthFromTime t) (DateFromTime t) = Day t"
proof -
  have d: "MonthFromTime t div 12 = 0" "MonthFromTime t mod 12 = MonthFromTime t"
    using MonthFromTime_range[of t] by simp_all
  show ?thesis
    by (simp add: MakeDay_def Let_def d DateFromTime_def InLeapYear_def DayWithinYear_def)
qed

lemma Day_midnight: "Day (d * msPerDay) = d"
  by (simp add: Day_def msPerDay_def)

lemma time_fields_midnight:
  "HourFromTime (d * msPerDay) = 0" "MinFromTime (d * msPerDay) = 0"
  "SecFromTime (d * msPerDay) = 0" "msFromTime (d * msPerDay) = 0"
proof -
  have h: "d * 86400000 div 3600000 = d * 24" by simp
  have m: "d * 86400000 div 60000 = d * 1440" by simp
  have s: "d * 86400000 div 1000 = d * 86400" by simp
  show "HourFromTime (d * msPerDay) = 0" by (simp add: HourFromTime_def msPerDay_def msPerHour_def h)
  show "MinFromTime (d * msPerDay) = 0" by (simp add: MinFromTime_def msPerDay_def msPerMinute_def m)
  show "SecFromTime (d * msPerDay) = 0" by (simp add: SecFromTime_def msPerDay_def msPerSecond_def s)
  show "msFromTime (d * msPerDay) = 0" by (simp add: msFromTime_def msPerDay_def msPerSecond_def)
qed

lemma toDate_value:
  assumes "\<not> (0 \<le> YearFromTime (LocalTime tza t) \<and> YearFromTime (LocalTime tza t) \<le> 99)"
  shows "toDate tza (Some t) = TimeClip (UTC tza (local_day_start tza t))"
proof -
  have "new_Date_fields tza (Some (YearFromTime (LocalTime tza t)))
      (Some (MonthFromTime (LocalTime tza t))) (Some (DateFromTime (LocalTime tza t)))
      (Some 0) (Some 0) (Some 0) (Some 0) =
    TimeClip (UTC tza (MakeDate (MakeDay (YearFromTime (LocalTime tza t))
      (MonthFromTime (LocalTime tza t)) (DateFromTime (LocalTime tza t))) (MakeTime 0 0 0 0)))"
    using assms by (auto simp: new_Date_fields_def)
  then show ?thesis
    by (simp add: toDate_def getFullYear_def getMonth_def getDate_def MakeDay_fields
        MakeDate_def MakeTime_def local_day_start_def)
qed

lemma fields_local_day_start:
  "YearFromTime (local_day_start tza t) = YearFromTime (LocalTime tza t)"
  "MonthFromTime (local_day_start tza t) = MonthFromTime (LocalTime tza t)"
  "DateFromTime (local_day_start tza t) = DateFromTime (LocalTime tza t)"
  by (simp_all add: local_day_start_def fields_of_Day[OF Day_midnight])

lemma MakeTime_fields:
  "MakeTime (HourFromTime t) (MinFromTime t) (SecFromTime t) (msFromTime t) = TimeWithinDay t"
proof -
  define H where "H = t div 3600000 mod 24"
  define M where "M = t div 60000 mod 60"
  define S where "S = t div 1000 mod 60"
  define R3 where "R3 = t mod 1000"
  define R2 where "R2 = t mod 60000"
  define R1 where "R1 = t mod 3600000"
  define R0 where "R0 = t mod 86400000"
  have a: "R2 = 1000 * S + R3"
    unfolding R2_def S_def R3_def using zmod_zmult2_eq[of 60 t 1000] by simp
  have b: "R1 = 60000 * M + R2"
    unfolding R1_def M_def R2_def using zmod_zmult2_eq[of 60 t 60000] by simp
  have c: "R0 = 3600000 * H + R1"
    unfolding R0_def H_def R1_def using zmod_zmult2_eq[of 24 t 3600000] by simp
  have "H * 3600000 + M * 60000 + S * 1000 + R3 = R0"
    by (simp add: a b c)
  then show ?thesis
    unfolding MakeTime_def HourFromTime_def MinFromTime_def SecFromTime_def msFromTime_def
      TimeWithinDay_def msPerDay_def msPerHour_def msPerMinute_def msPerSecond_def
      H_def M_def S_def R3_def R0_def .
qed

lemma MakeDate_fields: "MakeDate (Day t) (TimeWithinDay t) = t"
  by (simp add: MakeDate_def Day_def TimeWithinDay_def)

section \<open>Properties of toDate and isSameDay\<close>

text \<open>
  Claim C8, as amended.  Let \<open>t\<close> be an Instant whose local year is not one of 0 to
  99, such that the start of its local day is a local time that the host maps to a time
  value and back unchanged (it was not skipped by a clock change) and that time value is
  within the Date range.  Then \<open>toDate t\<close> is an Instant whose local hour, minute,
  second and millisecond are 0 and whose local year, month and day of the month are
  those of \<open>t\<close>.
\<close>

theorem toDate_start_of_day:
  assumes "is_instant (Some t)"
    and "\<not> (0 \<le> YearFromTime (LocalTime tza t) \<and> YearFromTime (LocalTime tza t) \<le> 99)"
    and "LocalTime tza (UTC tza (local_day_start tza t)) = local_day_start tza t"
    and "\<bar>UTC tza (local_day_start tza t)\<bar> \<le> maxTime"
  shows "is_instant (toDate tza (Some t)) \<and>
         getHours tza (toDate tza (Some t)) = Some 0 \<and>
         getMinutes tza (toDate tza (Some t)) = Some 0 \<and>
         getSeconds tza (toDate tza (Some t)) = Some 0 \<and>
         getMilliseconds tza (toDate tza (Some t)) = Some 0 \<and>
         getFullYear tza (toDate tza (Some t)) = getFullYear tza (Some t) \<and>
         getMonth tza (toDate tza (Some t)) = getMonth tza (Some t) \<and>
         getDate tza (toDate tza (Some t)) = getDate tza (Some t)"
proof -
  have v: "toDate tza (Some t) = Some (UTC tza (local_day_start tza t))"
    using toDate_value[OF assms(2)] assms(4) by (simp add: TimeClip_def)
  show ?thesis
    unfolding v
    using assms(3,4)
    by (simp add: is_instant_def getHours_def getMinutes_def getSeconds_def
        getMilliseconds_def getFullYear_def getMonth_def getDate_def fields_local_day_start)
       (simp add: local_day_start_def time_fields_midnight)
qed

theorem toDate_start_of_day_witness:
  "is_instant (Some 1516710896789) \<and>
   \<not> (0 \<le> YearFromTime (LocalTime (fixed_offset (- 28800000)) 1516710896789) \<and>
      YearFromTime (LocalTime (fixed_offset (- 28800000)) 1516710896789) \<le> 99) \<and>
   LocalTime (fixed_offset (- 28800000))
     (UTC (fixed_offset (- 28800000)) (local_day_start (fixed_offset (- 28800000)) 1516710896789)) =
     local_day_start (fixed_offset (- 28800000)) 1516710896789 \<and>
   \<bar>UTC (fixed_offset (- 28800000)) (local_day_start (fixed_offset (- 28800000)) 1516710896789)\<bar>
     \<le> maxTime \<and>
   getHours (fixed_offset (- 28800000)) (toDate (fixed_offset (- 28800000)) (Some 1516710896789))
     = Some 0 \<and>
   getDate (fixed_offset (- 28800000)) (toDate (fixed_offset (- 28800000)) (Some 1516710896789))
     = getDate (fixed_offset (- 28800000)) (Some 1516710896789)"
proof -
  let ?z = "fixed_offset (- 28800000)"
  have lt: "LocalTime ?z 1516710896789 = 1516682096789"
    by (simp add: LocalTime_def fixed_offset_def)
  have y: "YearFromTime 1516682096789 = 2018"
    using calendar_fields(1)[of 1516682096789 17554 2018] by (simp add: DayFromYear_def)
  have s: "local_day_start ?z 1516710896789 = 1516665600000"
    by (simp add: local_day_start_def lt Day_def msPerDay_def)
  have h1: "is_instant (Some 1516710896789)" by (simp add: is_instant_def maxTime_def)
  have h2: "\<not> (0 \<le> YearFromTime (LocalTime ?z 1516710896789) \<and>
      YearFromTime (LocalTime ?z 1516710896789) \<le> 99)"
    by (simp add: lt y)
  have h3: "LocalTime ?z (UTC ?z (local_day_start ?z 1516710896789)) =
      local_day_start ?z 1516710896789"
    by (simp add: LocalTime_def UTC_def fixed_offset_def)
  have h4: "\<bar>UTC ?z (local_day_start ?z 1516710896789)\<bar> \<le> maxTime"
    unfolding s by (simp add: UTC_def fixed_offset_def maxTime_def)
  show ?thesis using h1 h2 h3 h4 toDate_start_of_day[OF h1 h2 h3 h4] by blast
qed

text \<open>
  Claim C8 as the specification states it fails where the local day has no 00:00: in
  America/Sao_Paulo the 4th of November 2018 began at 01:00, and \<open>toDate\<close> of
  15:00 UTC on that day is 03:00 UTC, whose local hour is 1.
\<close>

theorem toDate_skipped_midnight_counterexample:
  "is_instant (Some 1541343600000) \<and>
   getHours sao_paulo_2018 (toDate sao_paulo_2018 (Some 1541343600000)) \<noteq> Some 0"
proof -
  have lt: "LocalTime sao_paulo_2018 1541343600000 = 1541336400000"
    by (simp add: LocalTime_def sao_paulo_2018_def)
  have c: "YearFromTime 1541336400000 = 2018" "DayWithinYear 1541336400000 = 307"
    "InLeapYear 1541336400000 = 0"
    using calendar_fields[of 1541336400000 17839 2018]
    by (simp_all add: DayFromYear_def DaysInYear_def)
  have m: "MonthFromTime 1541336400000 = 10" "DateFromTime 1541336400000 = 4"
    by (simp_all add: MonthFromTime_def DateFromTime_def DaysBeforeMonth_def c)
  have md: "MakeDay 2018 10 4 = 17839"
    by (simp add: MakeDay_def DayFromYear_def DaysInYear_def DaysBeforeMonth_def)
  have g: "getFullYear sao_paulo_2018 (Some 1541343600000) = Some 2018"
    "getMonth sao_paulo_2018 (Some 1541343600000) = Some 10"
    "getDate sao_paulo_2018 (Some 1541343600000) = Some 4"
    by (simp_all add: getFullYear_def getMonth_def getDate_def lt c m)
  have nd: "new_Date_fields sao_paulo_2018 (Some 2018) (Some 10) (Some 4)
      (Some 0) (Some 0) (Some 0) (Some 0) = Some 1541300400000"
    by (simp add: new_Date_fields_def md MakeDate_def MakeTime_def msPerDay_def UTC_def
        sao_paulo_2018_def TimeClip_def maxTime_def)
  have td: "toDate sao_paulo_2018 (Some 1541343600000) = Some 1541300400000"
    by (simp add: toDate_def g nd)
  have "getHours sao_paulo_2018 (Some 1541300400000) = Some 1"
    by (simp add: getHours_def LocalTime_def sao_paulo_2018_def HourFromTime_def
        msPerHour_def)
  then show ?thesis
    unfolding td by (simp add: is_instant_def maxTime_def)
qed

text \<open>
  Claim C9, as amended.  Let \<open>t\<close> be an Instant whose local year is not one of 0 to
  99, and let the Instant that the host gives for the start of the local day of \<open>t\<close>
  lie within the Date range and have a local time on that same day (as it has also when
  a clock change skipped 00:00 and the host reads it as a later time of the day).  Then
  \<open>toDate\<close> is idempotent at \<open>t\<close> and \<open>toDate t\<close> is on the same local day as \<open>t\<close>.
\<close>

theorem toDate_idempotent_same_day:
  assumes "is_instant (Some t)"
    and "\<not> (0 \<le> YearFromTime (LocalTime tza t) \<and> YearFromTime (LocalTime tza t) \<le> 99)"
    and "Day (LocalTime tza (UTC tza (local_day_start tza t))) = Day (LocalTime tza t)"
    and "\<bar>UTC tza (local_day_start tza t)\<bar> \<le> maxTime"
  shows "toDate tza (toDate tza (Some t)) = toDate tza (Some t) \<and>
         isSameDay tza (toDate tza (Some t)) (Some t)"
proof -
  let ?r = "UTC tza (local_day_start tza t)"
  have v: "toDate tza (Some t) = Some ?r"
    using toDate_value[OF assms(2)] assms(4) by (simp add: TimeClip_def)
  have f: "YearFromTime (LocalTime tza ?r) = YearFromTime (LocalTime tza t)"
    "MonthFromTime (LocalTime tza ?r) = MonthFromTime (LocalTime tza t)"
    "DateFromTime (LocalTime tza ?r) = DateFromTime (LocalTime tza t)"
    by (rule fields_of_Day[OF assms(3)])+
  have s: "local_day_start tza ?r = local_day_start tza t"
    using assms(3) by (simp add: local_day_start_def)
  have "toDate tza (Some ?r) = TimeClip (UTC tza (local_day_start tza ?r))"
    by (rule toDate_value) (use f(1) assms(2) in simp)
  then have i: "toDate tza (Some ?r) = Some ?r"
    using s assms(4) by (simp add: TimeClip_def)
  have d: "isSameDay tza (Some ?r) (Some t)"
    by (simp add: isSameDay_def strict_equals_def getFullYear_def getMonth_def getDate_def f)
  show ?thesis using v i d by simp
qed

theorem toDate_idempotent_same_day_witness:
  "is_instant (Some 1541343600000) \<and>
   \<not> (0 \<le> YearFromTime (LocalTime sao_paulo_2018 1541343600000) \<and>
      YearFromTime (LocalTime sao_paulo_2018 1541343600000) \<le> 99) \<and>
   Day (LocalTime sao_paulo_2018
          (UTC sao_paulo_2018 (local_day_start sao_paulo_2018 1541343600000))) =
     Day (LocalTime sao_paulo_2018 1541343600000) \<and>
   \<bar>UTC sao_paulo_2018 (local_day_start sao_paulo_2018 1541343600000)\<bar> \<le> maxTime \<and>
   LocalTime sao_paulo_2018
       (UTC sao_paulo_2018 (local_day_start sao_paulo_2018 1541343600000)) \<noteq>
     local_day_start sao_paulo_2018 1541343600000 \<and>
   toDate sao_paulo_2018 (toDate sao_paulo_2018 (Some 1541343600000)) =
     toDate sao_paulo_2018 (Some 1541343600000) \<and>
   isSameDay sao_paulo_2018 (toDate sao_paulo_2018 (Some 1541343600000))
     (Some 1541343600000)"
proof -
  let ?z = "sao_paulo_2018"
  have lt: "LocalTime ?z 1541343600000 = 1541336400000"
    by (simp add: LocalTime_def sao_paulo_2018_def)
  have y: "YearFromTime 1541336400000 = 2018"
    using calendar_fields(1)[of 1541336400000 17839 2018] by (simp add: DayFromYear_def)
  have s: "local_day_start ?z 1541343600000 = 1541289600000"
    by (simp add: local_day_start_def lt Day_def msPerDay_def)
  have u: "UTC ?z 1541289600000 = 1541300400000"
    by (simp add: UTC_def sao_paulo_2018_def)
  have l: "LocalTime ?z 1541300400000 = 1541293200000"
    by (simp add: LocalTime_def sao_paulo_2018_def)
  have h1: "is_instant (Some 1541343600000)" by (simp add: is_instant_def maxTime_def)
  have h2: "\<not> (0 \<le> YearFromTime (LocalTime ?z 1541343600000) \<and>
      YearFromTime (LocalTime ?z 1541343600000) \<le> 99)"
    by (simp add: lt y)
  have h3: "Day (LocalTime ?z (UTC ?z (local_day_start ?z 1541343600000))) =
      Day (LocalTime ?z 1541343600000)"
    unfolding s u l lt by (simp add: Day_def msPerDay_def)
  have h4: "\<bar>UTC ?z (local_day_start ?z 1541343600000)\<bar> \<le> maxTime"
    unfolding s u by (simp add: maxTime_def)
  have h5: "LocalTime ?z (UTC ?z (local_day_start ?z 1541343600000)) \<noteq>
      local_day_start ?z 1541343600000"
    unfolding s u l by simp
  show ?thesis using h1 h2 h3 h4 h5 toDate_idempotent_same_day[OF h1 h2 h3 h4] by blast
qed

text \<open>
  Claim C9 as the specification states it fails at the start of the Date range: in a
  zone one hour east of Greenwich the first Instant, 20 April of the year -271821 at
  01:00 local time, has a local midnight before the first time value of a Date, so
  \<open>toDate\<close> is an Invalid Date, and an Invalid Date is on the same day as nothing.
\<close>

theorem toDate_same_day_counterexample:
  "is_instant (Some (- 8640000000000000)) \<and>
   \<not> isSameDay (fixed_offset 3600000)
       (toDate (fixed_offset 3600000) (Some (- 8640000000000000)))
       (Some (- 8640000000000000))"
proof -
  let ?z = "fixed_offset 3600000"
  have lt: "LocalTime ?z (- 8640000000000000) = - 8639999996400000"
    by (simp add: LocalTime_def fixed_offset_def)
  have c: "YearFromTime (- 8639999996400000) = - 271821"
    "DayWithinYear (- 8639999996400000) = 109"
    "InLeapYear (- 8639999996400000) = 0"
    using calendar_fields[of "- 8639999996400000" "- 100000000" "- 271821"]
    by (simp_all add: DayFromYear_def DaysInYear_def)
  have m: "MonthFromTime (- 8639999996400000) = 3" "DateFromTime (- 8639999996400000) = 20"
    by (simp_all add: MonthFromTime_def DateFromTime_def DaysBeforeMonth_def c)
  have md: "MakeDay (- 271821) 3 20 = - 100000000"
    by (simp add: MakeDay_def DayFromYear_def DaysInYear_def DaysBeforeMonth_def)
  have g: "getFullYear ?z (Some (- 8640000000000000)) = Some (- 271821)"
    "getMonth ?z (Some (- 8640000000000000)) = Some 3"
    "getDate ?z (Some (- 8640000000000000)) = Some 20"
    by (simp_all add: getFullYear_def getMonth_def getDate_def lt c m)
  have nd: "new_Date_fields ?z (Some (- 271821)) (Some 3) (Some 20)
      (Some 0) (Some 0) (Some 0) (Some 0) = None"
    by (simp add: new_Date_fields_def md MakeDate_def MakeTime_def msPerDay_def UTC_def
        fixed_offset_def TimeClip_def maxTime_def)
  have td: "toDate ?z (Some (- 8640000000000000)) = None"
    by (simp add: toDate_def g nd)
  show ?thesis
    unfolding td
    by (simp add: is_instant_def maxTime_def isSameDay_def getFullYear_def strict_equals_def)
qed

section \<open>Fields read from a time value are valid fields\<close>

lemma DayWithinYear_range: "0 \<le> DayWithinYear t" "DayWithinYear t < 365 + InLeapYear t"
proof -
  show "0 \<le> DayWithinYear t"
    using YearFromDay_bounds(1)[of "Day t"] by (simp add: DayWithinYear_def YearFromTime_def)
  have "DayWithinYear t < DaysInYear (YearFromTime t)"
    using YearFromDay_bounds(2)[of "Day t"] DayFromYear_Suc[of "YearFromDay (Day t)"]
    by (simp add: DayWithinYear_def YearFromTime_def)
  then show "DayWithinYear t < 365 + InLeapYear t"
    by (simp add: InLeapYear_def DaysInYear_def split: if_splits)
qed

lemma InLeapYear_isLeapYear: "InLeapYear t = (if isLeapYear (YearFromTime t) then 1 else 0)"
proof -
  have d: "y mod 400 = 0 \<Longrightarrow> y mod 100 = 0" for y :: int by auto
  have e: "y mod 100 = 0 \<Longrightarrow> y mod 4 = 0" for y :: int by presburger
  show ?thesis
    using d[of "YearFromTime t"] e[of "YearFromTime t"]
    by (auto simp: InLeapYear_def isLeapYear_def DaysInYear_def)
qed

lemma date_in_month:
  fixes k l :: int
  assumes "0 \<le> k" and "k < 365 + l" and "l = 0 \<or> l = 1"
  defines "m \<equiv> (if k < 31 then 0 else if k < 59 + l then 1 else if k < 90 + l then 2
         else if k < 120 + l then 3 else if k < 151 + l then 4 else if k < 181 + l then 5
         else if k < 212 + l then 6 else if k < 243 + l then 7 else if k < 273 + l then 8
         else if k < 304 + l then 9 else if k < 334 + l then 10 else 11)"
  shows "1 \<le> k - DaysBeforeMonth m l + 1 \<and>
     k - DaysBeforeMonth m l + 1 \<le> (if m = 1 then 28 + l else 31 - m mod 7 mod 2)"
proof -
  define Q where "Q x \<longleftrightarrow> 1 \<le> k - DaysBeforeMonth x l + 1 \<and>
     k - DaysBeforeMonth x l + 1 \<le> (if x = 1 then 28 + l else 31 - x mod 7 mod 2)" for x
  have q0: "Q 0" if "k < 31"
    using that assms(1-3) by (auto simp: Q_def DaysBeforeMonth_def)
  have q1: "Q 1" if "\<not> k < 31" "k < 59 + l"
    using that assms(1-3) by (auto simp: Q_def DaysBeforeMonth_def)
  have q2: "Q 2" if "\<not> k < 59 + l" "k < 90 + l"
    using that assms(1-3) by (auto simp: Q_def DaysBeforeMonth_def)
  have q3: "Q 3" if "\<not> k < 90 + l" "k < 120 + l"
    using that assms(1-3) by (auto simp: Q_def DaysBeforeMonth_def)
  have q4: "Q 4" if "\<not> k < 120 + l" "k < 151 + l"
    using that assms(1-3) by (auto simp: Q_def DaysBeforeMonth_def)
  have q5: "Q 5" if "\<not> k < 151 + l" "k < 181 + l"
    using that assms(1-3) by (auto simp: Q_def DaysBeforeMonth_def)
  have q6: "Q 6" if "\<not> k < 181 + l" "k < 212 + l"
    using that assms(1-3) by (auto simp: Q_def DaysBeforeMonth_def)
  have q7: "Q 7" if "\<not> k < 212 + l" "k < 243 + l"
    using that assms(1-3) by (auto simp: Q_def DaysBeforeMonth_def)
  have q8: "Q 8" if "\<not> k < 243 + l" "k < 273 + l"
    using that assms(1-3) by (auto simp: Q_def DaysBeforeMonth_def)
  have q9: "Q 9" if "\<not> k < 273 + l" "k < 304 + l"
    using that assms(1-3) by (auto simp: Q_def DaysBeforeMonth_def)
  have q10: "Q 10" if "\<not> k < 304 + l" "k < 334 + l"
    using that assms(1-3) by (auto simp: Q_def DaysBeforeMonth_def)
  have q11: "Q 11" if "\<not> k < 334 + l"
    using that assms(1-3) by (auto simp: Q_def DaysBeforeMonth_def)
  have "Q m"
    unfolding m_def using q0 q1 q2 q3 q4 q5 q6 q7 q8 q9 q10 q11 by simp
  then show ?thesis by (simp add: Q_def)
qed

lemma DateFromTime_range:
  "1 \<le> DateFromTime t" "DateFromTime t \<le> daysInMonth (YearFromTime t) (MonthFromTime t)"
proof -
  have l: "InLeapYear t = 0 \<or> InLeapYear t = 1" by (simp add: InLeapYear_def)
  have dm: "1 \<le> DayWithinYear t - DaysBeforeMonth (MonthFromTime t) (InLeapYear t) + 1 \<and>
      DayWithinYear t - DaysBeforeMonth (MonthFromTime t) (InLeapYear t) + 1 \<le>
        (if MonthFromTime t = 1 then 28 + InLeapYear t else 31 - MonthFromTime t mod 7 mod 2)"
    using date_in_month[OF DayWithinYear_range l] unfolding MonthFromTime_def Let_def .
  show "1 \<le> DateFromTime t"
    using dm unfolding DateFromTime_def by (rule conjunct1)
  have m: "MonthFromTime t mod 12 = MonthFromTime t"
    using MonthFromTime_range[of t] by simp
  have dim: "daysInMonth (YearFromTime t) (MonthFromTime t) =
      (if MonthFromTime t = 1 then 28 + InLeapYear t else 31 - MonthFromTime t mod 7 mod 2)"
    unfolding daysInMonth_def Let_def m InLeapYear_isLeapYear by simp
  show "DateFromTime t \<le> daysInMonth (YearFromTime t) (MonthFromTime t)"
    unfolding dim DateFromTime_def using dm by (rule conjunct2)
qed

lemma fields_no_overflow:
  "\<not> overflow (YearFromTime t) (MonthFromTime t) (DateFromTime t) (HourFromTime t)
       (MinFromTime t) (SecFromTime t) (msFromTime t)"
proof -
  have h: "0 \<le> HourFromTime t" "HourFromTime t < 24"
    by (simp_all add: HourFromTime_def)
  have mi: "0 \<le> MinFromTime t" "MinFromTime t < 60"
    by (simp_all add: MinFromTime_def)
  have s: "0 \<le> SecFromTime t" "SecFromTime t < 60"
    by (simp_all add: SecFromTime_def)
  have ms: "0 \<le> msFromTime t" "msFromTime t < 1000"
    by (simp_all add: msFromTime_def msPerSecond_def)
  show ?thesis
    unfolding overflow_def
    using MonthFromTime_range[of t] DateFromTime_range[of t] h mi s ms by linarith
qed

lemma moment_utc_array_fields:
  "moment_utc_array (Some (YearFromTime t)) (Some (MonthFromTime t)) (Some (DateFromTime t))
     (Some (HourFromTime t)) (Some (MinFromTime t)) (Some (SecFromTime t)) (Some (msFromTime t))
   = \<lparr>m_d = TimeClip t, m_isUTC = True, m_offset = 0\<rparr>"
  by (simp add: moment_utc_array_def fields_no_overflow MakeDay_fields MakeTime_fields
      MakeDate_fields)

lemma new_Date_fields_fields:
  assumes "\<not> (0 \<le> YearFromTime t \<and> YearFromTime t \<le> 99)"
  shows "new_Date_fields tza (Some (YearFromTime t)) (Some (MonthFromTime t))
     (Some (DateFromTime t)) (Some (HourFromTime t)) (Some (MinFromTime t))
     (Some (SecFromTime t)) (Some (msFromTime t)) = TimeClip (UTC tza t)"
  using assms
  by (auto simp: new_Date_fields_def MakeDay_fields MakeTime_fields MakeDate_fields)


section \<open>Properties of the zone conversions\<close>


lemma moment_date: "is_date d \<Longrightarrow>
  moment (valueOf d) = \<lparr>m_d = d, m_isUTC = False, m_offset = 0\<rparr>"
  by (cases d) (simp_all add: moment_def valueOf_def new_Date_def TimeClip_def is_date_def)



text \<open>The three results of \<open>getZone\<close>.\<close>

lemma getZone_known:
  "db (normalizeName name) = Some z \<Longrightarrow> getZone db name = Inr (Some z)"
  by (simp add: getZone_def)

lemma getZone_inherited:
  "db (normalizeName name) = None \<Longrightarrow> Object_prototype (normalizeName name) \<noteq> None \<Longrightarrow>
   getZone db name = Inl TypeError"
  by (simp add: getZone_def)

lemma getZone_unknown:
  "db (normalizeName name) = None \<Longrightarrow> Object_prototype (normalizeName name) = None \<Longrightarrow>
   getZone db name = Inr None"
  by (simp add: getZone_def)

lemma normalizeName_empty: "normalizeName name = [] \<longleftrightarrow> name = []"
  by (simp add: normalizeName_def toLowerCase_def)

lemma Object_prototype_empty: "Object_prototype [] = None"
  by (simp add: Object_prototype_def)





text \<open>
  The data of London in 1945 are not regular after the second of two backward changes,
  and there \<open>Zone_parse\<close> misreads a wall-clock time that occurred once: 03:30 on 7
  October 1945, an hour and a half after the clocks went back to Greenwich time, is read
  as summer time.
\<close>

lemma London_1945_once_only:
  "\<not> Zone_regular_at zone_London_1945 (- 764800200000) \<and>
   \<not> (\<exists>t'. t' < - 764800200000 \<and>
        wall_time zone_London_1945 t' = wall_time zone_London_1945 (- 764800200000)) \<and>
   Zone_utcOffset zone_London_1945 (- 764800200000) = 0 \<and>
   Zone_parse zone_London_1945 (wall_time zone_London_1945 (- 764800200000)) = - 60"
proof -
  have a: "\<not> Zone_regular_at zone_London_1945 (- 764800200000)"
    by (simp add: Zone_regular_at_def zone_London_1945_def)
  have b: "\<not> (\<exists>t'. t' < - 764800200000 \<and>
        wall_time zone_London_1945 t' = wall_time zone_London_1945 (- 764800200000))"
    by (auto simp: wall_time_def Zone_utcOffset_def zone_London_1945_def split: if_splits)
  have c: "Zone_utcOffset zone_London_1945 (- 764800200000) = 0"
    by (simp add: Zone_utcOffset_def zone_London_1945_def)
  have d: "Zone_parse zone_London_1945 (wall_time zone_London_1945 (- 764800200000)) = - 60"
    by (simp add: wall_time_def c)
      (simp add: Zone_parse_def zone_London_1945_def moveAmbiguousForward_def
        moveInvalidForward_def)
  show ?thesis using a b c d by blast
qed



lemma zonedToLocal_empty_zone: "zonedToLocal tza db d [] = Inl TypeError"
  by (simp add: zonedToLocal_def tz_method_def)

lemma zonedToLocal_raises:
  assumes "getZone db zone = Inl e"
  shows "zonedToLocal tza db d zone = Inl TypeError"
  using assms by (cases e) (simp add: zonedToLocal_def tz_method_def tz_applied_def)

lemma localToZoned_raises:
  assumes "getZone db zone = Inl e"
  shows "localToZoned tza db d zone = Inl e"
  using assms by (simp add: localToZoned_def moment_tz_array_def)

lemma zonedToLocal_unknown:
  assumes "getZone db zone = Inr None" and "zone \<noteq> []" and "is_date d"
  shows "zonedToLocal tza db d zone =
           Inr (new_Date_fields tza (getFullYear tza d) (getMonth tza d) (getDate tza d)
                  (getHours tza d) (getMinutes tza d) (getSeconds tza d)
                  (getMilliseconds tza d))"
  using assms
  by (simp add: zonedToLocal_def tz_method_def tz_applied_def moment_date moment_get_def
      getFullYear_def getMonth_def getDate_def getHours_def getMinutes_def getSeconds_def
      getMilliseconds_def)

lemma moment_tz_array_unknown:
  assumes "getZone db zone = Inr None"
  shows "moment_tz_array db y mo dt h mi s ms zone = Inr (moment_utc_array y mo dt h mi s ms)"
  using assms by (simp add: moment_tz_array_def Let_def tz_applied_def)

lemma moment_tz_array_UTC:
  assumes "getZone db zone = Inr (Some zone_UTC)"
  shows "moment_tz_array db y mo dt h mi s ms zone = Inr (moment_utc_array y mo dt h mi s ms)"
proof -
  have p: "Zone_parse zone_UTC v = 0" for v by (simp add: Zone_parse_def zone_UTC_def)
  have o: "Zone_utcOffset zone_UTC v = 0" for v by (simp add: Zone_utcOffset_def zone_UTC_def)
  have u: "updateOffset zone_UTC m = m" if "m_isUTC m" "m_offset m = 0" for m
    using that by (cases "m_d m") (simp_all add: updateOffset_def moment_valueOf_def
        utcOffset_set_def o)
  have ad: "add_minutes m 0 = m" for m
    by (cases "m_d m") (simp_all add: add_minutes_def)
  show ?thesis
    using assms
    by (simp add: moment_tz_array_def Let_def tz_applied_def p ad u moment_utc_array_def
        split: option.splits)
qed

lemma localToZoned_unknown_value:
  assumes "getZone db zone = Inr None" and "\<bar>LocalTime tza r\<bar> \<le> maxTime"
  shows "localToZoned tza db (Some r) zone = Inr (Some (LocalTime tza r))"
  using assms(2) moment_utc_array_fields[of "LocalTime tza r"]
  by (simp add: localToZoned_def
      moment_tz_array_unknown[where db=db and zone=zone, OF assms(1)] getFullYear_def
      getMonth_def getDate_def getHours_def getMinutes_def getSeconds_def getMilliseconds_def
      moment_toDate_def moment_valueOf_def new_Date_def TimeClip_def)

lemma zonedToLocal_unknown_value:
  assumes "getZone db zone = Inr None" and "zone \<noteq> []" and "\<bar>t\<bar> \<le> maxTime"
    and "\<not> (0 \<le> YearFromTime (LocalTime tza t) \<and> YearFromTime (LocalTime tza t) \<le> 99)"
  shows "zonedToLocal tza db (Some t) zone = Inr (TimeClip (UTC tza (LocalTime tza t)))"
  using zonedToLocal_unknown[where db=db and zone=zone and d="Some t" and tza=tza]
    assms(1-3) new_Date_fields_fields[OF assms(4), of tza]
  by (simp add: is_date_def getFullYear_def getMonth_def getDate_def getHours_def
      getMinutes_def getSeconds_def getMilliseconds_def)





text \<open>
  Claim C2, as amended.  Let \<open>zone\<close> be a name under which, normalised, the zone
  database holds nothing.
  \<^item> When the normalised name is that of a member inherited from \<^verbatim>\<open>Object.prototype\<close>
    (\<^verbatim>\<open>constructor\<close>, \<^verbatim>\<open>__proto__\<close>), both conversions raise a TypeError.
  \<^item> When the name is empty, \<open>zonedToLocal\<close> raises a TypeError and \<open>localToZoned\<close>
    returns what it returns when the name stands for UTC.
  \<^item> For every other name neither conversion fails: \<open>zonedToLocal\<close> returns the Date
    rebuilt from the fields of \<open>d\<close> in the environment's default zone (the library
    leaves the moment in local mode), and \<open>localToZoned\<close> returns what it returns when
    the name stands for UTC.
\<close>

theorem unknown_zone_cases:
  assumes "db (normalizeName zone) = None" and "is_date d"
  shows "(Object_prototype (normalizeName zone) \<noteq> None \<longrightarrow>
            zonedToLocal tza db d zone = Inl TypeError \<and>
            localToZoned tza db d zone = Inl TypeError) \<and>
         (zone = [] \<longrightarrow>
            zonedToLocal tza db d zone = Inl TypeError \<and>
            localToZoned tza db d zone =
              localToZoned tza (db(normalizeName zone \<mapsto> zone_UTC)) d zone) \<and>
         (zone \<noteq> [] \<and> Object_prototype (normalizeName zone) = None \<longrightarrow>
            zonedToLocal tza db d zone =
              Inr (new_Date_fields tza (getFullYear tza d) (getMonth tza d) (getDate tza d)
                     (getHours tza d) (getMinutes tza d) (getSeconds tza d)
                     (getMilliseconds tza d)) \<and>
            localToZoned tza db d zone =
              localToZoned tza (db(normalizeName zone \<mapsto> zone_UTC)) d zone)"
proof (intro conjI impI)
  assume i: "Object_prototype (normalizeName zone) \<noteq> None"
  have g: "getZone db zone = Inl TypeError" by (rule getZone_inherited[where db=db and name=zone, OF assms(1) i])
  show "zonedToLocal tza db d zone = Inl TypeError" by (rule zonedToLocal_raises[OF g])
  show "localToZoned tza db d zone = Inl TypeError" by (rule localToZoned_raises[OF g])
next
  assume e: "zone = []"
  show "zonedToLocal tza db d zone = Inl TypeError"
    unfolding e by (rule zonedToLocal_empty_zone)
  have g: "getZone db zone = Inr None"
    using assms(1) e by (simp add: getZone_def normalizeName_def toLowerCase_def
        Object_prototype_def)
  have g': "getZone (db(normalizeName zone \<mapsto> zone_UTC)) zone = Inr (Some zone_UTC)"
    by (simp add: getZone_def)
  show "localToZoned tza db d zone =
      localToZoned tza (db(normalizeName zone \<mapsto> zone_UTC)) d zone"
    unfolding localToZoned_def moment_tz_array_unknown[where db=db and zone=zone, OF g]
    by (simp only: moment_tz_array_UTC[where zone=zone, OF g'])
next
  assume n: "zone \<noteq> [] \<and> Object_prototype (normalizeName zone) = None"
  have g: "getZone db zone = Inr None" using getZone_unknown[where db=db and name=zone, OF assms(1)] n by simp
  have g': "getZone (db(normalizeName zone \<mapsto> zone_UTC)) zone = Inr (Some zone_UTC)"
    by (simp add: getZone_def)
  show "zonedToLocal tza db d zone =
      Inr (new_Date_fields tza (getFullYear tza d) (getMonth tza d) (getDate tza d)
             (getHours tza d) (getMinutes tza d) (getSeconds tza d)
             (getMilliseconds tza d))"
    using zonedToLocal_unknown[where db=db and zone=zone and d=d and tza=tza, OF g] n assms(2)
    by simp
  show "localToZoned tza db d zone =
      localToZoned tza (db(normalizeName zone \<mapsto> zone_UTC)) d zone"
    unfolding localToZoned_def moment_tz_array_unknown[where db=db and zone=zone, OF g]
    by (simp only: moment_tz_array_UTC[where zone=zone, OF g'])
qed

theorem unknown_zone_cases_witness:
  "is_date (Some 1516710896789) \<and>
   example_db (normalizeName ''Constructor'') = None \<and>
   Object_prototype (normalizeName ''Constructor'') \<noteq> None \<and>
   zonedToLocal (fixed_offset (- 28800000)) example_db (Some 1516710896789) ''Constructor'' =
     Inl TypeError \<and>
   localToZoned (fixed_offset (- 28800000)) example_db (Some 1516710896789) ''Constructor'' =
     Inl TypeError \<and>
   example_db (normalizeName []) = None \<and>
   zonedToLocal (fixed_offset (- 28800000)) example_db (Some 1516710896789) [] =
     Inl TypeError \<and>
   localToZoned (fixed_offset (- 28800000)) example_db (Some 1516710896789) [] =
     localToZoned (fixed_offset (- 28800000)) (example_db(normalizeName [] \<mapsto> zone_UTC))
       (Some 1516710896789) [] \<and>
   example_db (normalizeName ''Mars/Olympus'') = None \<and>
   ''Mars/Olympus'' \<noteq> [] \<and> Object_prototype (normalizeName ''Mars/Olympus'') = None \<and>
   zonedToLocal (fixed_offset (- 28800000)) example_db (Some 1516710896789) ''Mars/Olympus'' =
     Inr (new_Date_fields (fixed_offset (- 28800000))
            (getFullYear (fixed_offset (- 28800000)) (Some 1516710896789))
            (getMonth (fixed_offset (- 28800000)) (Some 1516710896789))
            (getDate (fixed_offset (- 28800000)) (Some 1516710896789))
            (getHours (fixed_offset (- 28800000)) (Some 1516710896789))
            (getMinutes (fixed_offset (- 28800000)) (Some 1516710896789))
            (getSeconds (fixed_offset (- 28800000)) (Some 1516710896789))
            (getMilliseconds (fixed_offset (- 28800000)) (Some 1516710896789))) \<and>
   localToZoned (fixed_offset (- 28800000)) example_db (Some 1516710896789) ''Mars/Olympus'' =
     localToZoned (fixed_offset (- 28800000))
       (example_db(normalizeName ''Mars/Olympus'' \<mapsto> zone_UTC))
       (Some 1516710896789) ''Mars/Olympus''"
proof -
  have h0: "is_date (Some 1516710896789)" by (simp add: is_date_def maxTime_def)
  have c1: "example_db (normalizeName ''Constructor'') = None" by code_simp
  have c2: "Object_prototype (normalizeName ''Constructor'') \<noteq> None" by code_simp
  have e1: "example_db (normalizeName []) = None" by code_simp
  have m1: "example_db (normalizeName ''Mars/Olympus'') = None" by code_simp
  have m2: "''Mars/Olympus'' \<noteq> []" by simp
  have m3: "Object_prototype (normalizeName ''Mars/Olympus'') = None" by code_simp
  show ?thesis
    using h0 c1 c2 e1 m1 m2 m3
      unknown_zone_cases[where db=example_db and zone="''Constructor''"
        and tza="fixed_offset (- 28800000)", OF c1 h0]
      unknown_zone_cases[where db=example_db and zone="[]"
        and tza="fixed_offset (- 28800000)", OF e1 h0]
      unknown_zone_cases[where db=example_db and zone="''Mars/Olympus''"
        and tza="fixed_offset (- 28800000)", OF m1 h0]
    by blast
qed

text \<open>
  Claim C2 as the specification states it fails: with a name the database does not know,
  \<open>zonedToLocal\<close> returns a Date (here, in a host eight hours west of Greenwich, the
  Instant it was given) and \<open>localToZoned\<close> returns the Instant that has the given
  local fields in UTC.  Neither raises an error.
\<close>

theorem unknown_zone_counterexample:
  "getZone example_db ''Mars/Olympus'' = Inr None \<and>
   zonedToLocal (fixed_offset (- 28800000)) example_db (Some 1516710896789) ''Mars/Olympus'' =
     Inr (Some 1516710896789) \<and>
   localToZoned (fixed_offset (- 28800000)) example_db (Some 1516710896789) ''Mars/Olympus'' =
     Inr (Some 1516682096789)"
proof -
  let ?z = "fixed_offset (- 28800000)"
  have h1: "getZone example_db ''Mars/Olympus'' = Inr None" by code_simp
  have lt: "LocalTime ?z 1516710896789 = 1516682096789"
    by (simp add: LocalTime_def fixed_offset_def)
  have y: "YearFromTime 1516682096789 = 2018"
    using calendar_fields(1)[of 1516682096789 17554 2018] by (simp add: DayFromYear_def)
  have a: "zonedToLocal ?z example_db (Some 1516710896789) ''Mars/Olympus'' =
      Inr (TimeClip (UTC ?z (LocalTime ?z 1516710896789)))"
    by (rule zonedToLocal_unknown_value[where db=example_db, OF h1])
      (simp_all add: lt y maxTime_def)
  have b: "localToZoned ?z example_db (Some 1516710896789) ''Mars/Olympus'' =
      Inr (Some (LocalTime ?z 1516710896789))"
    by (rule localToZoned_unknown_value[where db=example_db, OF h1])
      (simp add: lt maxTime_def)
  show ?thesis
    unfolding a b lt using h1
    by (simp add: UTC_def fixed_offset_def TimeClip_def maxTime_def)
qed

section \<open>The offset that parseInt reads from the ZZ format\<close>

lemma digit_char_props:
  assumes "k < 10"
  shows "is_digit (digit_char k)" and "(of_char (digit_char k) :: nat) - 48 = k"
  using assms by (simp_all add: is_digit_def digit_char_def)

lemma decimal_digits: "\<forall>c \<in> set (decimal n). is_digit c"
proof (induction n rule: decimal.induct)
  case (1 n)
  show ?case
  proof (cases "n < 10")
    case True
    then show ?thesis by (subst decimal.simps) (simp add: digit_char_props)
  next
    case False
    then show ?thesis
      using 1 by (subst decimal.simps) (simp add: digit_char_props)
  qed
qed

lemma digits_value_snoc: "digits_value (ds @ [c]) = digits_value ds * 10 + (of_char c - 48)"
  by (simp add: digits_value_def)

lemma digits_value_decimal: "digits_value (decimal n) = n"
proof (induction n rule: decimal.induct)
  case (1 n)
  show ?case
  proof (cases "n < 10")
    case True
    then show ?thesis
      by (subst decimal.simps) (simp add: digits_value_def digit_char_props)
  next
    case False
    then have "digits_value (decimal (n div 10)) = n div 10" using 1 by simp
    then show ?thesis
      using False
      by (subst decimal.simps) (simp add: digits_value_snoc digit_char_props)
  qed
qed

lemma digits_value_append:
  "digits_value (xs @ ys) = digits_value xs * 10 ^ length ys + digits_value ys"
proof (induction ys rule: rev_induct)
  case Nil
  show ?case by (simp add: digits_value_def)
next
  case (snoc c ys)
  have "digits_value (xs @ ys @ [c]) = digits_value (xs @ ys) * 10 + (of_char c - 48)"
    using digits_value_snoc[of "xs @ ys" c] by simp
  then show ?case
    by (simp add: snoc digits_value_snoc algebra_simps)
qed

lemma digits_value_zeros: "digits_value (replicate k (CHR ''0'') @ ds) = digits_value ds"
proof -
  have "digits_value (replicate k (CHR ''0'')) = 0"
    by (induction k) (simp_all add: digits_value_def)
  then show ?thesis using digits_value_append[of "replicate k (CHR ''0'')" ds] by simp
qed

lemma zeroFill_digits: "\<forall>c \<in> set (zeroFill n k). is_digit c"
  using decimal_digits[of n] by (auto simp: zeroFill_def is_digit_def)

lemma zeroFill_value: "digits_value (zeroFill n k) = n"
  by (simp add: zeroFill_def digits_value_zeros digits_value_decimal)

lemma length_decimal_small:
  assumes "n < 100"
  shows "length (decimal n) \<le> 2"
proof -
  have "n div 10 < 10" using assms by simp
  then have "length (decimal (n div 10)) = 1" by (subst decimal.simps) simp
  then show ?thesis by (subst decimal.simps) simp
qed

lemma length_zeroFill_2: "n < 100 \<Longrightarrow> length (zeroFill n 2) = 2"
  using length_decimal_small[of n] by (simp add: zeroFill_def)

lemma decimal_nonempty: "decimal n \<noteq> []"
  by (subst decimal.simps) simp

lemma parseInt_format_ZZ: "parseInt (format_offset [] off) = Some (hhmm off)"
proof -
  define a where "a = nat \<bar>off\<bar>"
  define ds where "ds = zeroFill (a div 60) 2 @ zeroFill (a mod 60) 2"
  have dig: "\<forall>c \<in> set ds. is_digit c"
    using zeroFill_digits by (auto simp: ds_def)
  have ne: "ds \<noteq> []" by (simp add: ds_def zeroFill_def decimal_nonempty)
  have tw: "takeWhile is_digit ds = ds" using dig by simp
  have val: "digits_value ds = a div 60 * 100 + a mod 60"
    unfolding ds_def
    by (simp add: digits_value_append zeroFill_value length_zeroFill_2)
  have f: "format_offset [] off = (if off < 0 then CHR ''-'' else CHR ''+'') # ds"
    by (simp add: format_offset_def Let_def a_def ds_def)
  have "int (a div 60 * 100 + a mod 60) = \<bar>off\<bar> div 60 * 100 + \<bar>off\<bar> mod 60"
    by (simp add: a_def zdiv_int zmod_int)
  then show ?thesis
    unfolding f using ne
    by (simp add: parseInt_def Let_def tw val hhmm_def)
qed

lemma hhmm_mono_nonneg:
  fixes a b :: int
  assumes "0 \<le> a" and "a < b"
  shows "a div 60 * 100 + a mod 60 < b div 60 * 100 + b mod 60"
proof -
  have ra: "0 \<le> a mod 60" "a mod 60 < 60" by simp_all
  have rb: "0 \<le> b mod 60" "b mod 60 < 60" by simp_all
  have ea: "a = 60 * (a div 60) + a mod 60" by simp
  have eb: "b = 60 * (b div 60) + b mod 60" by simp
  have q: "a div 60 \<le> b div 60" using assms(2) by (simp add: zdiv_mono1)
  show ?thesis
  proof (cases "a div 60 = b div 60")
    case True
    then have "a mod 60 < b mod 60" using ea eb assms(2) by linarith
    then show ?thesis using True by simp
  next
    case False
    then have "a div 60 + 1 \<le> b div 60" using q by simp
    then show ?thesis using ra rb by linarith
  qed
qed

lemma hhmm_strict_mono: "a < b \<Longrightarrow> hhmm a < hhmm b"
proof -
  assume ab: "a < b"
  have nn: "0 \<le> x div 60 * 100 + x mod 60" if "0 \<le> x" for x :: int
    using that by (simp add: pos_imp_zdiv_nonneg_iff)
  have pos: "0 < x div 60 * 100 + x mod 60" if "0 < x" for x :: int
    using hhmm_mono_nonneg[of 0 x] that by simp
  consider "0 \<le> a" | "a < 0" "0 \<le> b" | "b < 0" using ab by linarith
  then show ?thesis
  proof cases
    case 1
    then have "hhmm a = a div 60 * 100 + a mod 60" "hhmm b = b div 60 * 100 + b mod 60"
      using ab by (simp_all add: hhmm_def)
    then show ?thesis using ab 1 hhmm_mono_nonneg[of a b] by simp
  next
    case 2
    then have "hhmm a = - ((- a) div 60 * 100 + (- a) mod 60)"
      "hhmm b = b div 60 * 100 + b mod 60"
      by (simp_all add: hhmm_def)
    moreover have "0 < (- a) div 60 * 100 + (- a) mod 60" using 2 by (intro pos) simp
    moreover have "0 \<le> b div 60 * 100 + b mod 60" using 2 by (intro nn) simp
    ultimately show ?thesis by linarith
  next
    case 3
    then have "hhmm a = - ((- a) div 60 * 100 + (- a) mod 60)"
      "hhmm b = - ((- b) div 60 * 100 + (- b) mod 60)"
      using ab by (simp_all add: hhmm_def)
    moreover have "(- b) div 60 * 100 + (- b) mod 60 < (- a) div 60 * 100 + (- a) mod 60"
      using 3 ab by (intro hhmm_mono_nonneg) simp_all
    ultimately show ?thesis by linarith
  qed
qed

lemma hhmm_less_iff: "hhmm a < hhmm b \<longleftrightarrow> a < b"
  using hhmm_strict_mono[of a b] hhmm_strict_mono[of b a]
  by (cases a b rule: linorder_cases) auto

lemma hhmm_eq_iff: "hhmm a = hhmm b \<longleftrightarrow> a = b"
  using hhmm_strict_mono[of a b] hhmm_strict_mono[of b a]
  by (cases a b rule: linorder_cases) auto


section \<open>Properties of the zone catalog\<close>

lemma insert_by_insort_key:
  assumes "\<forall>y \<in> set ys. cmp x y \<le> 0 \<longleftrightarrow> f x \<le> f y"
  shows "insert_by cmp x ys = insort_key f x ys"
  using assms by (induction ys) simp_all

lemma array_sort_sort_key:
  assumes "\<forall>x \<in> set xs. \<forall>y \<in> set xs. cmp x y \<le> 0 \<longleftrightarrow> f x \<le> f y"
  shows "array_sort cmp xs = sort_key f xs"
  using assms
proof (induction xs)
  case Nil
  show ?case by (simp add: array_sort_def)
next
  case (Cons a xs)
  have ih: "array_sort cmp xs = sort_key f xs" using Cons by simp
  have "set (sort_key f xs) = set xs" by simp
  then have "\<forall>y \<in> set (sort_key f xs). cmp a y \<le> 0 \<longleftrightarrow> f a \<le> f y"
    using Cons.prems by simp
  then have "insert_by cmp a (sort_key f xs) = insort_key f a (sort_key f xs)"
    by (rule insert_by_insort_key)
  then show ?case using ih by (simp add: array_sort_def sort_key_def)
qed

text \<open>The key that \<^verbatim>\<open>compareMultiple\<close> compares, for entries whose offsets are numbers.\<close>

lemma compareMultiple_key:
  assumes "entry_offset (fst a) = Some oa" and "entry_offset (fst b) = Some ob"
  shows "compareMultiple a b \<le> 0 \<longleftrightarrow>
    (oa, entry_name (fst a), snd a) \<le> (ob, entry_name (fst b), snd b)"
  using assms
  by (auto simp: compareMultiple_def compareAscending_num_def compareAscending_str_def Let_def
      less_eq_prod_def less_prod_def)


lemma hhmm_le_iff: "hhmm a \<le> hhmm b \<longleftrightarrow> a \<le> b"
  using hhmm_less_iff[of b a] by (simp add: not_less[symmetric])

lemma tz_method_usable:
  assumes "moment_valueOf m = Some now" and "zone_usable db now z"
  shows "\<exists>zn. getZone db z = Inr (Some zn) \<and>
    tz_method db m z = Inr (Some \<lparr>m_d = Some (wall_time zn now), m_isUTC = True,
      m_offset = - Zone_utcOffset zn now\<rparr>)"
proof -
  obtain zn where zn: "getZone db z = Inr (Some zn)" "\<bar>wall_time zn now\<bar> \<le> maxTime"
    and ne: "z \<noteq> []"
    using assms(2) by (auto simp: zone_usable_def split: option.splits sum.splits)
  obtain d where d: "m_d m = Some d" "d - m_offset m * 60000 = now"
    using assms(1) by (auto simp: moment_valueOf_def)
  have "d + (- Zone_utcOffset zn now - m_offset m) * 60000 = wall_time zn now"
    using d(2) by (simp add: wall_time_def algebra_simps)
  moreover have "m_offset m = - Zone_utcOffset zn now \<Longrightarrow> d = wall_time zn now"
    using d(2) by (simp add: wall_time_def)
  ultimately have "updateOffset zn m = \<lparr>m_d = Some (wall_time zn now), m_isUTC = True,
      m_offset = - Zone_utcOffset zn now\<rparr>"
    using assms(1) d(1) zn(2)
    by (simp add: updateOffset_def utcOffset_set_def TimeClip_def)
  then show ?thesis using zn(1) ne by (simp add: tz_method_def tz_applied_def)
qed

lemma zones_map_usable:
  assumes "moment_valueOf m = Some now" and "\<forall>z \<in> set zs. zone_usable db now z"
  shows "zones_map tza db m zs =
    Inr (map (\<lambda>z. \<lparr>entry_name = z, entry_offset = Some (hhmm (current_offset db now z))\<rparr>) zs)"
  using assms
proof (induction zs arbitrary: m)
  case Nil
  show ?case by simp
next
  case (Cons z zs)
  obtain zn where zn: "getZone db z = Inr (Some zn)"
    and tz: "tz_method db m z = Inr (Some \<lparr>m_d = Some (wall_time zn now), m_isUTC = True,
      m_offset = - Zone_utcOffset zn now\<rparr>)"
    using tz_method_usable[OF Cons.prems(1), of db z] Cons.prems(2) by auto
  let ?m = "\<lparr>m_d = Some (wall_time zn now), m_isUTC = True, m_offset = - Zone_utcOffset zn now\<rparr>"
  have v: "moment_valueOf ?m = Some now"
    by (simp add: moment_valueOf_def wall_time_def)
  have ih: "zones_map tza db ?m zs =
    Inr (map (\<lambda>z. \<lparr>entry_name = z, entry_offset = Some (hhmm (current_offset db now z))\<rparr>) zs)"
    using Cons.IH[OF v] Cons.prems(2) by simp
  have f: "parseInt (moment_format_offset [] tza ?m) = Some (hhmm (current_offset db now z))"
    by (simp add: moment_format_offset_def utcOffset_get_def parseInt_format_ZZ
        current_offset_def zn)
  show ?case
    by (simp add: tz ih f)
qed

lemma sortBy_offset_name_key:
  assumes "\<forall>e \<in> set es. entry_offset e = Some (h (entry_name e))"
  shows "sortBy_offset_name es =
    map fst (sort_key (\<lambda>p. (h (entry_name (fst p)), entry_name (fst p), snd p))
      (zip es [0 ..< length es]))"
proof -
  have "\<forall>x \<in> set (zip es [0 ..< length es]). \<forall>y \<in> set (zip es [0 ..< length es]).
      compareMultiple x y \<le> 0 \<longleftrightarrow>
      (h (entry_name (fst x)), entry_name (fst x), snd x) \<le>
      (h (entry_name (fst y)), entry_name (fst y), snd y)"
  proof (intro ballI)
    fix x y
    assume "x \<in> set (zip es [0 ..< length es])" "y \<in> set (zip es [0 ..< length es])"
    then have "fst x \<in> set es" "fst y \<in> set es"
      using set_zip_leftD[of "fst x" "snd x" es "[0 ..< length es]"]
        set_zip_leftD[of "fst y" "snd y" es "[0 ..< length es]"]
      by simp_all
    then have "entry_offset (fst x) = Some (h (entry_name (fst x)))"
      "entry_offset (fst y) = Some (h (entry_name (fst y)))"
      using assms by auto
    then show "compareMultiple x y \<le> 0 \<longleftrightarrow>
      (h (entry_name (fst x)), entry_name (fst x), snd x) \<le>
      (h (entry_name (fst y)), entry_name (fst y), snd y)"
      by (rule compareMultiple_key)
  qed
  then show ?thesis
    unfolding sortBy_offset_name_def by (simp only: array_sort_sort_key)
qed

lemma sortZones_usable:
  assumes "\<bar>now\<bar> \<le> maxTime" and "\<forall>z \<in> set zs. zone_usable db now z"
  shows "\<exists>r. sortZones tza db now zs = Inr r \<and> mset r = mset zs \<and>
    sorted_wrt (offset_then_name db now) r"
proof -
  define mk where "mk = (\<lambda>z. \<lparr>entry_name = z,
    entry_offset = Some (hhmm (current_offset db now z))\<rparr>)"
  define key where "key = (\<lambda>p :: ZoneEntry \<times> nat.
    (hhmm (current_offset db now (entry_name (fst p))), entry_name (fst p), snd p))"
  define es where "es = map mk zs"
  define srt where "srt = sort_key key (zip es [0 ..< length es])"
  define r where "r = map entry_name (map fst srt)"
  have v: "moment_valueOf (moment (Some now)) = Some now"
    using assms(1) by (simp add: moment_def moment_valueOf_def new_Date_def TimeClip_def)
  have zm: "zones_map tza db (moment (Some now)) zs = Inr es"
    unfolding es_def mk_def by (rule zones_map_usable[OF v assms(2)])
  have "\<forall>e \<in> set es. entry_offset e = Some (hhmm (current_offset db now (entry_name e)))"
    by (auto simp: es_def mk_def)
  then have sb: "sortBy_offset_name es = map fst srt"
    unfolding srt_def key_def by (rule sortBy_offset_name_key)
  have res: "sortZones tza db now zs = Inr r"
    by (simp add: sortZones_def zm sb r_def)
  have a1: "mset srt = mset (zip es [0 ..< length es])" unfolding srt_def by simp
  have a2: "map fst (zip es [0 ..< length es]) = es" by (simp add: map_fst_zip)
  have "mset (map fst srt) = image_mset fst (mset srt)" by simp
  also have "\<dots> = image_mset fst (mset (zip es [0 ..< length es]))" by (simp only: a1)
  also have "\<dots> = mset (map fst (zip es [0 ..< length es]))" by (rule mset_map[symmetric])
  also have "\<dots> = mset es" by (simp only: a2)
  finally have "mset (map fst srt) = mset es" .
  then have "mset r = mset (map entry_name es)"
    unfolding r_def by (metis mset_map)
  then have ms: "mset r = mset zs"
    by (simp add: es_def mk_def comp_def)
  have "sorted (map key srt)" unfolding srt_def by simp
  then have "sorted_wrt (\<lambda>p q. key p \<le> key q) srt" by (simp add: sorted_map)
  then have "sorted_wrt (\<lambda>p q. offset_then_name db now (entry_name (fst p)) (entry_name (fst q))) srt"
  proof (rule sorted_wrt_mono_rel[rotated])
    fix p q
    assume "key p \<le> key q"
    then show "offset_then_name db now (entry_name (fst p)) (entry_name (fst q))"
      by (auto simp: key_def offset_then_name_def less_eq_prod_def less_prod_def
          hhmm_less_iff hhmm_le_iff)
  qed
  then have "sorted_wrt (offset_then_name db now) r"
    by (simp add: r_def sorted_wrt_map)
  then show ?thesis using res ms by blast
qed

text \<open>
  Claim C5.  Let the module be loaded at the time \<open>now\<close> with a zone name table all of
  whose keys are names that the library can move a moment to.  Then the load succeeds,
  and \<open>getCommonZones\<close> returns the list held in the module's constant
  \<open>COMMON_ZONES\<close>, computed once at load time: it contains exactly the keys of the table
  and is ordered by the offset that each zone had at the time of loading, zones of equal
  offset in the order of their identifiers.
\<close>

theorem getCommonZones_sorted:
  assumes "\<bar>now\<bar> \<le> maxTime" and "\<forall>z \<in> set (map fst json). zone_usable db now z"
  shows "\<exists>md. load_module tza db now json = Inr md \<and> TIMEZONES md = json \<and>
     mset (getCommonZones md) = mset (map fst json) \<and>
     sorted_wrt (offset_then_name db now) (getCommonZones md)"
proof -
  obtain r where r: "sortZones tza db now (map fst json) = Inr r"
    "mset r = mset (map fst json)" "sorted_wrt (offset_then_name db now) r"
    using sortZones_usable[OF assms, of tza] by blast
  have "load_module tza db now json = Inr \<lparr>TIMEZONES = json, COMMON_ZONES = r\<rparr>"
    by (simp add: load_module_def r(1))
  then show ?thesis using r(2,3) by (simp add: getCommonZones_def)
qed


theorem getCommonZones_sorted_witness:
  "\<bar>1516710896789\<bar> \<le> maxTime \<and>
   zone_usable catalog_db 1516710896789 ''UTC'' \<and>
   zone_usable catalog_db 1516710896789 ''Australia/Sydney'' \<and>
   zone_usable catalog_db 1516710896789 ''Asia/Kolkata'' \<and>
   zone_usable catalog_db 1516710896789 ''America/New_York'' \<and>
   (\<exists>md. load_module (fixed_offset 0) catalog_db 1516710896789 example_timezones = Inr md \<and>
      TIMEZONES md = example_timezones \<and>
      mset (getCommonZones md) = mset (map fst example_timezones) \<and>
      sorted_wrt (offset_then_name catalog_db 1516710896789) (getCommonZones md))"
proof -
  have h1: "\<bar>1516710896789\<bar> \<le> maxTime" by (simp add: maxTime_def)
  have u: "zone_usable catalog_db 1516710896789 ''UTC''"
    "zone_usable catalog_db 1516710896789 ''Australia/Sydney''"
    "zone_usable catalog_db 1516710896789 ''Asia/Kolkata''"
    "zone_usable catalog_db 1516710896789 ''America/New_York''"
    by code_simp+
  have h2: "\<forall>z \<in> set (map fst example_timezones). zone_usable catalog_db 1516710896789 z"
    using u by (simp add: example_timezones_def)
  show ?thesis
    using h1 u
      getCommonZones_sorted[where db=catalog_db and tza="fixed_offset 0", OF h1 h2]
    by blast
qed


section \<open>Properties of humanizeZone\<close>

lemma beautify_one_underscore:
  "count_list zone (CHR ''_'') \<le> 1 \<Longrightarrow> beautify zone = spec_beautify zone"
proof -
  have a: "count_list cs (CHR ''_'') = 0 \<Longrightarrow>
      map (\<lambda>c. if c = CHR ''_'' then CHR '' '' else c) cs = cs" for cs
    by (induction cs) (auto split: if_splits)
  show "count_list zone (CHR ''_'') \<le> 1 \<Longrightarrow> beautify zone = spec_beautify zone"
    unfolding beautify_def spec_beautify_def
    by (induction zone) (auto simp: a)
qed

text \<open>
  Claim C6 at the failing input: the zone America/Port_of_Spain is in the zone database
  and not in the zone name table, and no inherited member has this name.  \<open>beautify\<close>
  replaces its first underscore only.
\<close>

theorem humanizeZone_second_underscore:
  "humanizeZone tza catalog_db 1516710896789
     \<lparr>TIMEZONES = example_timezones, COMMON_ZONES = cz\<rparr> ''America/Port_of_Spain'' =
   Inr ''(GMT-04:00) America/Port of_Spain''"
proof -
  have g: "getZone catalog_db ''America/Port_of_Spain'' = Inr (Some zone_Port_of_Spain)"
    by code_simp
  have m: "moment_tz_number catalog_db 1516710896789 ''America/Port_of_Spain'' =
      Inr \<lparr>m_d = Some 1516696496789, m_isUTC = True, m_offset = - 240\<rparr>"
    by (simp add: moment_tz_number_def tz_applied_def g updateOffset_def
        moment_valueOf_def utcOffset_set_def Zone_utcOffset_def zone_Port_of_Spain_def
        TimeClip_def maxTime_def)
  have d: "digit_char 0 = CHR ''0''" "digit_char 4 = CHR ''4''"
    by code_simp+
  have f: "moment_format_offset '':'' tza
      \<lparr>m_d = Some 1516696496789, m_isUTC = True, m_offset = - 240\<rparr> = ''-04:00''"
    by (simp add: moment_format_offset_def utcOffset_get_def format_offset_def zeroFill_def
        decimal.simps d)
  have t: "map_of example_timezones ''America/Port_of_Spain'' = None"
    by (simp add: example_timezones_def)
  have p: "Object_prototype ''America/Port_of_Spain'' = None"
    by (simp add: Object_prototype_def)
  show ?thesis
    by (simp add: humanizeZone_def m f t p beautify_def)
qed

lemma humanizeZone_as_specified:
  "''(GMT-04:00) '' @ spec_beautify ''America/Port_of_Spain'' =
   ''(GMT-04:00) America/Port of Spain''"
  by (simp add: spec_beautify_def)

text \<open>
  The other branches of \<open>humanizeZone\<close>: a name that is no key of the table but the
  name of a member inherited from \<^verbatim>\<open>Object.prototype\<close> is given the text of that
  member, and a name on which the library's lookup raises makes \<open>humanizeZone\<close> raise.
\<close>

lemma humanizeZone_inherited_member:
  "humanizeZone tza catalog_db 1516710896789
     \<lparr>TIMEZONES = example_timezones, COMMON_ZONES = cz\<rparr> ''toString'' =
   Inr ''(GMT+00:00) function toString() { [native code] }''"
proof -
  have g: "getZone catalog_db ''toString'' = Inr None" by code_simp
  have m: "moment_tz_number catalog_db 1516710896789 ''toString'' =
      Inr \<lparr>m_d = Some 1516710896789, m_isUTC = True, m_offset = 0\<rparr>"
    by (simp add: moment_tz_number_def tz_applied_def g TimeClip_def maxTime_def)
  have d: "digit_char 0 = CHR ''0''" by code_simp
  have f: "moment_format_offset '':'' tza
      \<lparr>m_d = Some 1516710896789, m_isUTC = True, m_offset = 0\<rparr> = ''+00:00''"
    by (simp add: moment_format_offset_def utcOffset_get_def format_offset_def zeroFill_def
        decimal.simps d)
  have t: "map_of example_timezones ''toString'' = None"
    by (simp add: example_timezones_def)
  have p: "Object_prototype ''toString'' = Some ''function toString() { [native code] }''"
    by (simp add: Object_prototype_def)
  show ?thesis
    by (simp add: humanizeZone_def m f t p)
qed

lemma humanizeZone_raises:
  "humanizeZone tza catalog_db now md ''constructor'' = Inl TypeError"
proof -
  have "getZone catalog_db ''constructor'' = Inl TypeError" by code_simp
  then show ?thesis by (simp add: humanizeZone_def moment_tz_number_def)
qed

section \<open>Rounding to a double\<close>

lemma ilog2_lower:
  assumes "0 < x"
  shows "2 powi (ilog2 x) \<le> x"
proof -
  define a where "a = fst (quotient_of x)"
  define b where "b = snd (quotient_of x)"
  define k where "k = bitlen a - bitlen b"
  have q: "quotient_of x = (a, b)" by (simp add: a_def b_def)
  have b: "0 < b" using quotient_of_denom_pos[OF q] .
  have x: "x = of_int a / of_int b" using quotient_of_div[OF q] .
  have a: "0 < a" using assms b x by (simp add: zero_less_divide_iff)
  have la: "(2::int) ^ nat (bitlen a - 1) \<le> a" using bitlen_bounds[OF a] by simp
  have lb: "b < (2::int) ^ nat (bitlen b)" using bitlen_bounds[OF b] by simp
  have la1: "1 \<le> bitlen a" using a bitlen_eq_zero_iff[of a] bitlen_nonneg[of a] by linarith
  have la': "(2::rat) powi (bitlen a - 1) \<le> of_int a"
  proof -
    have "(of_int ((2::int) ^ nat (bitlen a - 1)) :: rat) \<le> of_int a" using la by (simp only: of_int_le_iff)
    then show ?thesis using la1 by (simp add: power_int_def)
  qed
  have lb': "(of_int b :: rat) \<le> 2 powi (bitlen b)"
  proof -
    have "(of_int b :: rat) \<le> of_int ((2::int) ^ nat (bitlen b))" using lb by (simp only: of_int_le_iff less_imp_le)
    then show ?thesis using bitlen_nonneg[of b] by (simp add: power_int_def)
  qed
  have "(2::rat) powi (k - 1) = 2 powi (bitlen a - 1) / 2 powi (bitlen b)"
    unfolding k_def by (simp add: power_int_diff)
  also have "\<dots> \<le> of_int a / of_int b"
    using la' lb' b a by (intro frac_le) simp_all
  finally have km: "(2::rat) powi (k - 1) \<le> x" using x by simp
  show ?thesis
    using km by (simp add: ilog2_def Let_def a_def [symmetric] b_def [symmetric] k_def [symmetric])
qed

lemma round_half_even_error: "\<bar>of_int (round_half_even y) - y\<bar> \<le> 1 / 2"
proof -
  have "of_int \<lfloor>y\<rfloor> \<le> y" "y < of_int \<lfloor>y\<rfloor> + 1" by linarith+
  then show ?thesis
    by (auto simp: round_half_even_def Let_def abs_le_iff)
qed

lemma round_half_even_int: "round_half_even (of_int n) = n"
  by (simp add: round_half_even_def)

text \<open>The relative error of rounding to a double is at most 2^-53.\<close>

lemma fl_error: "\<bar>fl x - x\<bar> \<le> \<bar>x\<bar> / 2 ^ 53"
proof (cases "x = 0")
  case True
  then show ?thesis by (simp add: fl_def)
next
  case False
  define e where "e = ilog2 \<bar>x\<bar>"
  define u :: rat where "u = 2 powi (e - 52)"
  have u: "0 < u" by (simp add: u_def)
  have lo: "2 powi e \<le> \<bar>x\<bar>" unfolding e_def using False by (intro ilog2_lower) simp
  have "fl x - x = (of_int (round_half_even (x / u)) - x / u) * u"
    using False u by (simp add: fl_def Let_def e_def u_def algebra_simps)
  then have "\<bar>fl x - x\<bar> = \<bar>of_int (round_half_even (x / u)) - x / u\<bar> * u"
    using u by (simp add: abs_mult)
  also have "\<dots> \<le> 1 / 2 * u"
    using round_half_even_error[of "x / u"] u by (intro mult_right_mono) simp_all
  also have "\<dots> = 2 powi e / 2 ^ 53"
    by (simp add: u_def power_int_diff)
  also have "\<dots> \<le> \<bar>x\<bar> / 2 ^ 53"
    using lo by (simp add: divide_right_mono)
  finally show ?thesis .
qed

text \<open>Integers up to 2^53 are doubles.\<close>

lemma fl_int:
  assumes "\<bar>n\<bar> \<le> 2 ^ 53"
  shows "fl (of_int n) = of_int n"
proof (cases "n = 0")
  case True
  then show ?thesis by (simp add: fl_def)
next
  case False
  define e where "e = ilog2 \<bar>of_int n\<bar>"
  have lo: "(2::rat) powi e \<le> \<bar>of_int n\<bar>"
    unfolding e_def using False by (intro ilog2_lower) simp
  have n53: "\<bar>of_int n :: rat\<bar> \<le> 2 ^ 53"
  proof -
    have "(of_int \<bar>n\<bar> :: rat) \<le> of_int (2 ^ 53)" using assms by (simp only: of_int_le_iff)
    then show ?thesis by simp
  qed
  have e53: "e \<le> 53"
  proof (rule ccontr)
    assume "\<not> e \<le> 53"
    then have "54 \<le> e" by simp
    then have "(2::rat) powi 54 \<le> 2 powi e" by (intro power_int_increasing) simp_all
    then show False using lo n53 by (simp add: power_int_def)
  qed
  have f: "fl (of_int n) = of_int (round_half_even (of_int n / 2 powi (e - 52))) * 2 powi (e - 52)"
    using False by (simp add: fl_def Let_def e_def)
  show ?thesis
  proof (cases "e \<le> 52")
    case True
    have "(of_int n :: rat) / 2 powi (e - 52) = of_int n * 2 powi (52 - e)"
      by (simp add: power_int_diff)
    also have "\<dots> = of_int (n * 2 ^ nat (52 - e))"
      using True by (simp add: power_int_def)
    finally have d: "(of_int n :: rat) / 2 powi (e - 52) = of_int (n * 2 ^ nat (52 - e))" .
    have "fl (of_int n) = of_int n * (2 powi (52 - e) * 2 powi (e - 52))"
      unfolding f d round_half_even_int using True by (simp add: power_int_def)
    also have "(2::rat) powi (52 - e) * 2 powi (e - 52) = 1"
      by (simp add: power_int_add [symmetric])
    finally show ?thesis by simp
  next
    case False
    then have e: "e = 53" using e53 by simp
    have "(2::rat) ^ 53 \<le> \<bar>of_int n\<bar>" using lo e by (simp add: power_int_def)
    then have "\<bar>of_int n :: rat\<bar> = 2 ^ 53" using n53 by simp
    then have "\<bar>n\<bar> = 2 ^ 53"
      by (metis of_int_abs of_int_eq_iff of_int_numeral of_int_power)
    then consider "n = 2 ^ 53" | "n = - (2 ^ 53)" by linarith
    then show ?thesis
    proof cases
      case 1
      have "round_half_even (of_int n / 2 powi (e - 52)) = 2 ^ 52"
        using round_half_even_int[of "2 ^ 52"] by (simp add: 1 e)
      then show ?thesis unfolding f by (simp add: 1 e)
    next
      case 2
      have "round_half_even (of_int n / 2 powi (e - 52)) = - (2 ^ 52)"
        using round_half_even_int[of "- (2 ^ 52)"] by (simp add: 2 e)
      then show ?thesis unfolding f by (simp add: 2 e)
    qed
  qed
qed


section \<open>Properties of humanizedDuration\<close>

lemma js_rem_zero_iff:
  assumes "y \<noteq> 0"
  shows "js_rem x y = 0 \<longleftrightarrow> (\<exists>k::int. x = y * of_int k)"
proof
  assume "js_rem x y = 0"
  then have "x = y * of_int (if x / y < 0 then \<lceil>x / y\<rceil> else \<lfloor>x / y\<rfloor>)"
    by (simp add: js_rem_def)
  then show "\<exists>k::int. x = y * of_int k" by blast
next
  assume "\<exists>k::int. x = y * of_int k"
  then obtain k :: int where "x = y * of_int k" by blast
  then show "js_rem x y = 0"
    using assms by (simp add: js_rem_def)
qed

lemma fl_bounds: "x - \<bar>x\<bar> / 2 ^ 53 \<le> fl x" "fl x \<le> x + \<bar>x\<bar> / 2 ^ 53"
proof -
  have a: "fl x - x \<le> \<bar>fl x - x\<bar>" "- (fl x - x) \<le> \<bar>fl x - x\<bar>" by simp_all
  show "x - \<bar>x\<bar> / 2 ^ 53 \<le> fl x" using a(2) fl_error[of x] by linarith
  show "fl x \<le> x + \<bar>x\<bar> / 2 ^ 53" using a(1) fl_error[of x] by linarith
qed

lemma minutes_le_60:
  fixes d :: int
  shows "fl (of_int d / 60000) \<le> 60 \<longleftrightarrow> d \<le> 3600000"
proof -
  define q :: rat where "q = of_int d / 60000"
  show ?thesis
  proof (cases "d \<le> 3600000")
    case True
    have "fl q \<le> 60"
    proof (cases "d = 3600000")
      case True
      then have "q = of_int 60" by (simp add: q_def)
      then show ?thesis using fl_int[of 60] by simp
    next
      case False
      then have "d \<le> 3599999" using True by simp
      then have "(of_int d :: rat) \<le> 3599999" by (metis of_int_le_iff of_int_numeral)
      then have q1: "q \<le> 3599999 / 60000" by (simp add: q_def)
      show ?thesis
      proof (cases "0 \<le> q")
        case True
        then have "fl q \<le> q + q / 2 ^ 53" using fl_bounds(2)[of q] by simp
        moreover have "q / 2 ^ 53 \<le> (3599999 / 60000) / 2 ^ 53"
          using q1 by (intro divide_right_mono) simp_all
        ultimately have "fl q \<le> 3599999 / 60000 + (3599999 / 60000) / 2 ^ 53"
          using q1 by linarith
        also have "\<dots> \<le> (60 :: rat)" by simp
        finally show ?thesis .
      next
        case False
        then have "\<bar>q\<bar> = - q" by simp
        then have "fl q \<le> q - q / 2 ^ 53" using fl_bounds(2)[of q] by simp
        moreover have "q - q / 2 ^ 53 = q * (1 - 1 / 2 ^ 53)" by (simp add: algebra_simps)
        moreover have "q * (1 - 1 / 2 ^ 53) \<le> 0"
          using False by (intro mult_nonpos_nonneg) simp_all
        ultimately show ?thesis by linarith
      qed
    qed
    then show ?thesis using True by (simp add: q_def)
  next
    case False
    then have "3600001 \<le> d" by simp
    then have "3600001 \<le> (of_int d :: rat)" by (metis of_int_le_iff of_int_numeral)
    then have q1: "3600001 / 60000 \<le> q" by (simp add: q_def)
    then have "\<bar>q\<bar> = q" by simp
    then have "q - q / 2 ^ 53 \<le> fl q" using fl_bounds(1)[of q] by simp
    moreover have "q - q / 2 ^ 53 = q * (1 - 1 / 2 ^ 53)" by (simp add: algebra_simps)
    moreover have "(3600001 / 60000) * (1 - 1 / 2 ^ 53) \<le> q * (1 - 1 / 2 ^ 53)"
      using q1 by (intro mult_right_mono) simp_all
    moreover have "(60 :: rat) < (3600001 / 60000) * (1 - 1 / 2 ^ 53)" by simp
    ultimately have "60 < fl q" by linarith
    then show ?thesis using False by (simp add: q_def)
  qed
qed

lemma minutes_rem_60:
  fixes d :: int
  assumes "\<bar>d\<bar> < 2 ^ 53"
  shows "js_rem (fl (of_int d / 60000)) 60 = 0 \<longleftrightarrow> d mod 3600000 = 0"
proof
  assume "d mod 3600000 = 0"
  then have "3600000 dvd d" by (simp add: mod_eq_0_iff_dvd)
  then obtain k where k: "d = 3600000 * k" by (rule dvdE)
  have "\<bar>60 * k\<bar> \<le> 2 ^ 53" using assms k by simp
  then have "fl (of_int (60 * k)) = of_int (60 * k)" by (rule fl_int)
  moreover have "(of_int d :: rat) / 60000 = of_int (60 * k)" by (simp add: k)
  ultimately have "fl (of_int d / 60000) = 60 * of_int k" by simp
  then show "js_rem (fl (of_int d / 60000)) 60 = 0"
    by (subst js_rem_zero_iff) auto
next
  assume "js_rem (fl (of_int d / 60000)) 60 = 0"
  then obtain k :: int where k: "fl (of_int d / 60000) = 60 * of_int k"
    by (subst (asm) js_rem_zero_iff) auto
  define q :: rat where "q = of_int d / 60000"
  have "\<bar>fl q - q\<bar> \<le> \<bar>q\<bar> / 2 ^ 53" by (rule fl_error)
  then have "\<bar>60 * of_int k - q\<bar> \<le> \<bar>q\<bar> / 2 ^ 53" using k by (simp add: q_def)
  then have "\<bar>60 * of_int k - q\<bar> * 60000 \<le> \<bar>q\<bar> / 2 ^ 53 * 60000"
    by (intro mult_right_mono) simp_all
  moreover have "\<bar>60 * of_int k - q\<bar> * 60000 = \<bar>of_int (3600000 * k - d) :: rat\<bar>"
    by (simp add: q_def abs_mult [symmetric] algebra_simps)
       (simp add: abs_if split: if_splits)
  moreover have "\<bar>q\<bar> / 2 ^ 53 * 60000 = \<bar>of_int d :: rat\<bar> / 2 ^ 53"
    by (simp add: q_def)
  moreover have "\<bar>of_int d :: rat\<bar> / 2 ^ 53 < 1"
  proof -
    have "(of_int \<bar>d\<bar> :: rat) < of_int (2 ^ 53)" using assms by (simp only: of_int_less_iff)
    then show ?thesis by simp
  qed
  ultimately have "\<bar>of_int (3600000 * k - d) :: rat\<bar> < 1" by simp
  then have "\<bar>3600000 * k - d\<bar> < 1"
    by (metis of_int_abs of_int_less_iff of_int_1)
  then have "d = 3600000 * k" by simp
  then show "d mod 3600000 = 0" by simp
qed

lemma humanizedDuration_cases:
  assumes "\<bar>e - s\<bar> < 2 ^ 53"
  shows "humanizedDuration humanize (Some s) (Some e) =
     (if e - s \<le> 3600000 \<or> (e - s) mod 3600000 = 0 then humanize (of_int (e - s))
      else toFixed1 (fl (fl (of_int (e - s) / 60000) / 60)) @ '' hours'')"
proof -
  have d: "moment_diff (Some e) (Some s) = Some (of_int (e - s))"
    using assms fl_int[of "e - s"] by (simp add: moment_diff_def)
  show ?thesis
    unfolding humanizedDuration_def d
    using minutes_le_60[of "e - s"] minutes_rem_60[OF assms]
    by (simp add: Let_def)
qed

lemma fl_three_halves: "fl (3 / 2) = 3 / 2"
  by code_simp

lemma toFixed1_three_halves: "toFixed1 (3 / 2) = ''1.5''"
  by code_simp

lemma ninety_minutes: "toFixed1 (fl (fl (of_int 5400000 / 60000) / 60)) = ''1.5''"
proof -
  have "(of_int 5400000 :: rat) / 60000 = of_int 90" by simp
  then have "fl (of_int 5400000 / 60000) = 90" using fl_int[of 90] by simp
  then show ?thesis by (simp add: fl_three_halves toFixed1_three_halves)
qed

lemma humanize_en_minus_90: "humanize_en (of_int (- 5400000)) = ''2 hours''"
  by code_simp


lemma toFixed1_minus_90: "toFixed1 (fl (fl (of_int (0 - 5400000) / 60000) / 60)) = ''-1.5''"
proof -
  have "(of_int (0 - 5400000) :: rat) / 60000 = of_int (- 90)" by simp
  then have "fl (of_int (0 - 5400000) / 60000) = - 90" using fl_int[of "- 90"] by simp
  moreover have "fl (- 3 / 2) = - 3 / 2" by code_simp
  moreover have "toFixed1 (- 3 / 2) = ''-1.5''" by code_simp
  ultimately show ?thesis by simp
qed

text \<open>
  Claim C3, as amended.  For two Instants less than 2^53 milliseconds apart,
  \<open>humanizedDuration\<close> returns the phrase of the humanization routine when the signed
  duration \<open>end - start\<close> is at most 60 minutes (so for every negative duration) or is an
  exact multiple of 60 minutes; otherwise it returns the double \<open>minutes / 60\<close>, printed
  by \<^verbatim>\<open>toFixed(1)\<close>, followed by \<^verbatim>\<open> hours\<close>.  A span of 90 minutes yields
  \<^verbatim>\<open>1.5 hours\<close>.
\<close>

theorem humanizedDuration_signed:
  assumes "\<bar>e - s\<bar> < 2 ^ 53"
  shows "humanizedDuration humanize (Some s) (Some e) =
           (if e - s \<le> 3600000 \<or> (e - s) mod 3600000 = 0 then humanize (of_int (e - s))
            else toFixed1 (fl (fl (of_int (e - s) / 60000) / 60)) @ '' hours'') \<and>
         humanizedDuration humanize (Some s) (Some (s + 5400000)) = ''1.5 hours''"
proof -
  have "\<bar>s + 5400000 - s\<bar> < (2::int) ^ 53" by simp
  then have "humanizedDuration humanize (Some s) (Some (s + 5400000)) = ''1.5 hours''"
    using ninety_minutes by (simp add: humanizedDuration_cases)
  then show ?thesis using humanizedDuration_cases[OF assms] by simp
qed

theorem humanizedDuration_signed_witness:
  "\<bar>1516718096789 - 1516710896789\<bar> < (2::int) ^ 53 \<and>
   humanizedDuration humanize_en (Some 1516710896789) (Some 1516718096789) =
     (if 1516718096789 - 1516710896789 \<le> (3600000::int) \<or>
         (1516718096789 - 1516710896789) mod 3600000 = (0::int)
      then humanize_en (of_int (1516718096789 - 1516710896789))
      else toFixed1 (fl (fl (of_int (1516718096789 - 1516710896789) / 60000) / 60)) @ '' hours'') \<and>
   humanizedDuration humanize_en (Some 1516710896789) (Some (1516710896789 + 5400000)) =
     ''1.5 hours''"
proof -
  have h: "\<bar>1516718096789 - 1516710896789\<bar> < (2::int) ^ 53" by simp
  show ?thesis
    using h humanizedDuration_signed[OF h, of humanize_en] by blast
qed

text \<open>
  Claim C3 as the specification states it fails for a negative duration: when the end
  lies 90 minutes before the start, the absolute duration is more than 60 minutes and no
  multiple of 60 minutes, but the code compares the signed number of minutes with 60 and
  returns the phrase of the humanization routine, not \<^verbatim>\<open>-1.5 hours\<close>.
\<close>

theorem humanizedDuration_negative_counterexample:
  "\<not> (\<bar>0 - 5400000\<bar> \<le> (3600000::int) \<or> \<bar>0 - 5400000\<bar> mod 3600000 = (0::int)) \<and>
   humanizedDuration humanize_en (Some 5400000) (Some 0) = ''2 hours'' \<and>
   toFixed1 (fl (fl (of_int (0 - 5400000) / 60000) / 60)) @ '' hours'' = ''-1.5 hours''"
proof -
  have "\<bar>0 - 5400000\<bar> < (2::int) ^ 53" by simp
  then have "humanizedDuration humanize_en (Some 5400000) (Some 0) =
      humanize_en (of_int (- 5400000))"
    by (simp add: humanizedDuration_cases)
  then have a: "humanizedDuration humanize_en (Some 5400000) (Some 0) = ''2 hours''"
    by (simp only: humanize_en_minus_90)
  have b: "\<not> (\<bar>0 - 5400000\<bar> \<le> (3600000::int) \<or> \<bar>0 - 5400000\<bar> mod 3600000 = (0::int))"
    by simp
  have c: "toFixed1 (fl (fl (of_int (0 - 5400000) / 60000) / 60)) @ '' hours'' = ''-1.5 hours''"
    by (simp only: toFixed1_minus_90) simp
  from a b c show ?thesis by blast
qed

section \<open>Properties of parseInZone\<close>












end
